theory Spec2Isabelle
  imports Main "HOL-Library.AList"
begin

section \<open>JavaScript values\<close>

text \<open>
  The values that flow through \<^verbatim>\<open>src/entity.js\<close>: entities, options objects, ids and
  callbacks. Numbers are integers (ids, epoch seconds); an object is its list of
  own properties in insertion order; a function value is an opaque application
  callback, identified by a number; \<open>NaN\<close> is what \<^verbatim>\<open>parseInt\<close> gives without digits.
  A property whose value is \<open>Undefined\<close> is present in the object (as after
  \<^verbatim>\<open>entity.expiration = undefined\<close>).
\<close>

datatype jsval =
    Undefined
  | Null
  | Bool bool
  | Num int
  | NaN
  | Str string
  | Arr "jsval list"
  | Obj "(string \<times> jsval) list"
  | Fun nat

datatype exn = TypeError | ReferenceError | SyntaxError | QuotaExceededError

fun exn_name :: "exn \<Rightarrow> string" where
  "exn_name TypeError = ''TypeError''"
| "exn_name ReferenceError = ''ReferenceError''"
| "exn_name SyntaxError = ''SyntaxError''"
| "exn_name QuotaExceededError = ''QuotaExceededError''"

text \<open>\<^verbatim>\<open>if (v)\<close>: the falsy values are undefined, null, false, 0, NaN and the empty string.\<close>

fun truthy :: "jsval \<Rightarrow> bool" where
  "truthy Undefined = False"
| "truthy Null = False"
| "truthy (Bool b) = b"
| "truthy (Num n) = (n \<noteq> 0)"
| "truthy NaN = False"
| "truthy (Str s) = (s \<noteq> [])"
| "truthy (Arr xs) = True"
| "truthy (Obj fs) = True"
| "truthy (Fun c) = True"

text \<open>
  \<^verbatim>\<open>v.name\<close>: reading a property of undefined or null throws a TypeError; a missing
  property reads as undefined. Arrays and strings have \<open>length\<close>; other inherited
  properties are not modelled.
\<close>

fun get_prop :: "jsval \<Rightarrow> string \<Rightarrow> exn + jsval" where
  "get_prop Undefined k = Inl TypeError"
| "get_prop Null k = Inl TypeError"
| "get_prop (Obj fs) k = Inr (case map_of fs k of None \<Rightarrow> Undefined | Some v \<Rightarrow> v)"
| "get_prop (Arr xs) k = Inr (if k = ''length'' then Num (int (length xs)) else Undefined)"
| "get_prop (Str s) k = Inr (if k = ''length'' then Num (int (length s)) else Undefined)"
| "get_prop v k = Inr Undefined"

text \<open>
  \<^verbatim>\<open>v.name = x\<close>, returning the object after the assignment: a TypeError on undefined
  and null, a new or overwritten own property on an object, silently nothing on a
  primitive (the file is not in strict mode). Named properties of arrays and functions
  are not modelled.
\<close>

fun set_prop :: "jsval \<Rightarrow> string \<Rightarrow> jsval \<Rightarrow> exn + jsval" where
  "set_prop Undefined k x = Inl TypeError"
| "set_prop Null k x = Inl TypeError"
| "set_prop (Obj fs) k x = Inr (Obj (AList.update k x fs))"
| "set_prop v k x = Inr v"

subsection \<open>Conversions\<close>

definition digit_char :: "nat \<Rightarrow> char" where
  "digit_char d = ''0123456789'' ! d"

fun digits :: "nat \<Rightarrow> string" where
  "digits n = (if n < 10 then [digit_char n] else digits (n div 10) @ [digit_char (n mod 10)])"

declare digits.simps [simp del]

definition int_to_string :: "int \<Rightarrow> string" where
  "int_to_string n = (if n < 0 then CHR ''-'' # digits (nat (- n)) else digits (nat n))"

fun join_comma :: "string list \<Rightarrow> string" where
  "join_comma [] = []"
| "join_comma [s] = s"
| "join_comma (s # t # ts) = s @ '','' @ join_comma (t # ts)"

text \<open>
  ToString, as used by \<^verbatim>\<open>entity_type + '_' + id\<close> and by a computed property name. An
  array joins its elements with commas, null and undefined elements printing as
  nothing. The source text a function prints as is not modelled.
\<close>

fun to_string :: "jsval \<Rightarrow> string" and to_string_items :: "jsval list \<Rightarrow> string list" where
  "to_string Undefined = ''undefined''"
| "to_string Null = ''null''"
| "to_string (Bool b) = (if b then ''true'' else ''false'')"
| "to_string (Num n) = int_to_string n"
| "to_string NaN = ''NaN''"
| "to_string (Str s) = s"
| "to_string (Arr xs) = join_comma (to_string_items xs)"
| "to_string (Obj fs) = ''[object Object]''"
| "to_string (Fun c) = ''function''"
| "to_string_items [] = []"
| "to_string_items (x # xs) =
     (if x = Undefined then [] else if x = Null then [] else to_string x) # to_string_items xs"

definition is_digit :: "char \<Rightarrow> bool" where
  "is_digit c = (c \<in> set ''0123456789'')"

definition digit_val :: "char \<Rightarrow> int" where
  "digit_val c = int (of_char c) - 48"

definition digits_val :: "string \<Rightarrow> int" where
  "digits_val s = foldl (\<lambda>a c. 10 * a + digit_val c) 0 s"

text \<open>
  \<^verbatim>\<open>parseInt(s)\<close>: an optional sign and the longest prefix of decimal digits; \<open>None\<close> is
  NaN. Leading white space and the \<^verbatim>\<open>0x\<close> prefix are not modelled.
\<close>

definition parseInt :: "string \<Rightarrow> int option" where
  "parseInt s =
     (let neg = (s \<noteq> [] \<and> hd s = CHR ''-'');
          body = (if s \<noteq> [] \<and> (hd s = CHR ''-'' \<or> hd s = CHR ''+'') then tl s else s);
          ds = takeWhile is_digit body
      in if ds = [] then None else Some (if neg then - digits_val ds else digits_val ds))"

text \<open>
  ToNumber on a string, for \<^verbatim>\<open>!=\<close> and \<^verbatim>\<open>>\<close>: the empty string is 0, a signed decimal
  integer is its value, anything else is NaN (\<open>None\<close>). Fractions, exponents and white
  space are not modelled.
\<close>

definition string_to_number :: "string \<Rightarrow> int option" where
  "string_to_number s =
     (let neg = (s \<noteq> [] \<and> hd s = CHR ''-'');
          body = (if s \<noteq> [] \<and> (hd s = CHR ''-'' \<or> hd s = CHR ''+'') then tl s else s)
      in if s = [] then Some 0
         else if body \<noteq> [] \<and> list_all is_digit body
           then Some (if neg then - digits_val body else digits_val body)
         else None)"

fun to_number :: "jsval \<Rightarrow> int option" where
  "to_number Undefined = None"
| "to_number Null = Some 0"
| "to_number (Bool b) = Some (if b then 1 else 0)"
| "to_number (Num n) = Some n"
| "to_number NaN = None"
| "to_number (Str s) = string_to_number s"
| "to_number (Arr xs) = string_to_number (to_string (Arr xs))"
| "to_number (Obj fs) = None"
| "to_number (Fun c) = None"

text \<open>\<^verbatim>\<open>v != 0\<close>: null and undefined equal only each other; the rest compares as numbers.\<close>

fun not_equal_zero :: "jsval \<Rightarrow> bool" where
  "not_equal_zero Undefined = True"
| "not_equal_zero Null = True"
| "not_equal_zero v = (to_number v \<noteq> Some 0)"

text \<open>\<^verbatim>\<open>t > v\<close> for a number \<open>t\<close>: false when \<open>v\<close> converts to NaN.\<close>

definition greater_than :: "int \<Rightarrow> jsval \<Rightarrow> bool" where
  "greater_than t v = (case to_number v of None \<Rightarrow> False | Some n \<Rightarrow> t > n)"

subsection \<open>JSON text\<close>

text \<open>
  A string kept in \<^verbatim>\<open>window.localStorage\<close> is represented by what it encodes: \<open>Json v\<close> is
  the JSON text of the value \<open>v\<close>, and \<open>Raw s\<close> is the string \<open>s\<close>, which is not JSON
  text. \<^verbatim>\<open>JSON.parse\<close> and \<^verbatim>\<open>JSON.stringify\<close> are the platform's; the encoding is lossless
  on what JSON can hold.
\<close>

datatype stored = Json jsval | Raw string

definition unserializable :: "jsval \<Rightarrow> bool" where
  "unserializable v = (case v of Undefined \<Rightarrow> True | Fun c \<Rightarrow> True | _ \<Rightarrow> False)"

text \<open>
  What \<^verbatim>\<open>JSON.stringify\<close> keeps of a value: a property whose value is undefined or a
  function is dropped, such an array element becomes null, and NaN becomes null.
\<close>

fun json_clean :: "jsval \<Rightarrow> jsval"
  and json_clean_items :: "jsval list \<Rightarrow> jsval list"
  and json_clean_fields :: "(string \<times> jsval) list \<Rightarrow> (string \<times> jsval) list" where
  "json_clean (Arr xs) = Arr (json_clean_items xs)"
| "json_clean (Obj fs) = Obj (json_clean_fields fs)"
| "json_clean Undefined = Undefined"
| "json_clean Null = Null"
| "json_clean (Bool b) = Bool b"
| "json_clean (Num n) = Num n"
| "json_clean NaN = Null"
| "json_clean (Str s) = Str s"
| "json_clean (Fun c) = Fun c"
| "json_clean_items [] = []"
| "json_clean_items (x # xs) =
     (if unserializable x then Null else json_clean x) # json_clean_items xs"
| "json_clean_fields [] = []"
| "json_clean_fields ((k, v) # fs) =
     (if unserializable v then json_clean_fields fs else (k, json_clean v) # json_clean_fields fs)"

text \<open>
  \<^verbatim>\<open>JSON.stringify(v)\<close> as \<^verbatim>\<open>setItem\<close> stores it: \<^verbatim>\<open>JSON.stringify(undefined)\<close> is undefined,
  which \<^verbatim>\<open>setItem\<close> stores as the string \<^verbatim>\<open>undefined\<close>.
\<close>

definition JSON_stringify :: "jsval \<Rightarrow> stored" where
  "JSON_stringify v = (if unserializable v then Raw ''undefined'' else Json (json_clean v))"

fun JSON_parse :: "stored \<Rightarrow> exn + jsval" where
  "JSON_parse (Json v) = Inr v"
| "JSON_parse (Raw s) = Inl SyntaxError"


section \<open>The world of the library\<close>

text \<open>
  An entry of \<^verbatim>\<open>Drupal.services_queue[entity_type][method][entity_id]\<close>: the callbacks
  set aside for one request, in the order they were added.
\<close>

record queue_entry =
  success_callbacks :: "jsval list"
  error_callbacks :: "jsval list"

text \<open>
  What the closures of \<^verbatim>\<open>call_options\<close> in \<^verbatim>\<open>entity_load\<close> capture (lines 145-182), and
  the property \<^verbatim>\<open>call_options[primary_key] = entity_id\<close> of line 187.
\<close>

record retrieve_call =
  cl_entity_type :: string
  cl_entity_id :: jsval
  cl_caching_enabled :: jsval
  cl_options :: jsval
  cl_primary_key :: jsval

text \<open>
  What leaves the library: an application callback called with its arguments, the
  remote retrieve handler \<^verbatim>\<open>window[function_name](ids, call_options)\<close>, and the other
  remote handlers, \<^verbatim>\<open>window[function_name](entity, options)\<close> and
  \<^verbatim>\<open>window[function_name](ids, options)\<close>. Callbacks and handlers are the application's
  and the transport's: they return without throwing, a handler answers later through
  its \<^verbatim>\<open>call_options\<close>, and a callback does not call back into the library while it
  runs.
\<close>

datatype event =
    Called nat "jsval list"
  | Retrieve string jsval retrieve_call
  | Remote string jsval jsval

record world =
  local_storage :: "string \<Rightarrow> stored option"
  services_queue :: "string \<times> string \<times> string \<Rightarrow> queue_entry option"
  console :: "string list"
  trace :: "event list"

text \<open>
  What the library reads and does not own. \<open>cache_entity\<close> is
  \<^verbatim>\<open>Drupal.settings.cache.entity\<close> (\<open>None\<close>: undefined). \<open>drupalgap\<close> is the global of the
  DrupalGap framework: \<open>None\<close> when no such global is declared, \<open>Some None\<close> when
  \<^verbatim>\<open>drupalgap.page.options\<close> is falsy. \<open>window_functions\<close> are the names \<open>f\<close> with
  \<^verbatim>\<open>typeof window[f] == 'function'\<close>. \<open>primary_key_provider\<close> is what a declared
  \<^verbatim>\<open>TYPE_primary_key(entity_type)\<close> returns. \<open>quota_exceeded\<close>: \<^verbatim>\<open>localStorage.setItem\<close>
  throws.
\<close>

record cache_settings =
  cache_enabled :: bool
  cache_expiration :: int

record page_options =
  page_reloadingPage :: bool
  page_reset :: jsval

record env =
  time_now :: int
  cache_entity :: "cache_settings option"
  drupalgap :: "page_options option option"
  window_functions :: "string list"
  primary_key_provider :: "string \<Rightarrow> jsval"
  language_default :: string
  quota_exceeded :: bool

subsection \<open>Statements that may throw\<close>

type_synonym 'a js = "world \<Rightarrow> (exn + 'a) \<times> world"

definition js_return :: "'a \<Rightarrow> 'a js" where
  "js_return v w = (Inr v, w)"

definition js_throw :: "exn \<Rightarrow> 'a js" where
  "js_throw e w = (Inl e, w)"

definition js_bind :: "'a js \<Rightarrow> ('a \<Rightarrow> 'b js) \<Rightarrow> 'b js" where
  "js_bind m f w = (case m w of (Inl e, w') \<Rightarrow> (Inl e, w') | (Inr v, w') \<Rightarrow> f v w')"

definition js_lift :: "exn + 'a \<Rightarrow> 'a js" where
  "js_lift r = (case r of Inl e \<Rightarrow> js_throw e | Inr v \<Rightarrow> js_return v)"

definition console_log :: "string \<Rightarrow> unit js" where
  "console_log msg w = (Inr (), w\<lparr>console := console w @ [msg]\<rparr>)"

text \<open>
  \<^verbatim>\<open>try { body } catch (error) { console.log(name + ' - ' + error); }\<close>: what the body did
  to the world before it threw stays done, one line is logged, and the function returns
  \<open>dflt\<close> (undefined in the source). The text of \<^verbatim>\<open>error\<close> is the engine's; the model logs
  the exception's name.
\<close>

definition try_catch :: "string \<Rightarrow> 'a \<Rightarrow> 'a js \<Rightarrow> 'a js" where
  "try_catch name dflt body w =
     (case body w of
        (Inl e, w') \<Rightarrow> (Inr dflt, w'\<lparr>console := console w' @ [name @ '' - '' @ exn_name e]\<rparr>)
      | (Inr v, w') \<Rightarrow> (Inr v, w'))"

text \<open>\<^verbatim>\<open>f(args)\<close> for a value \<open>f\<close>: a TypeError unless \<open>f\<close> is a function.\<close>

definition call :: "jsval \<Rightarrow> jsval list \<Rightarrow> jsval js" where
  "call f args w =
     (case f of
        Fun c \<Rightarrow> (Inr Undefined, w\<lparr>trace := trace w @ [Called c args]\<rparr>)
      | _ \<Rightarrow> (Inl TypeError, w))"

subsection \<open>The platform and the helpers outside this file\<close>

definition getItem :: "string \<Rightarrow> stored option js" where
  "getItem key w = (Inr (local_storage w key), w)"

definition setItem :: "env \<Rightarrow> string \<Rightarrow> stored \<Rightarrow> unit js" where
  "setItem env key v w =
     (if quota_exceeded env then (Inl QuotaExceededError, w)
      else (Inr (), w\<lparr>local_storage := (local_storage w)(key \<mapsto> v)\<rparr>))"

definition removeItem :: "string \<Rightarrow> unit js" where
  "removeItem key w = (Inr (), w\<lparr>local_storage := (local_storage w)(key := None)\<rparr>)"

definition function_exists :: "env \<Rightarrow> string \<Rightarrow> bool" where
  "function_exists env name = (name \<in> set (window_functions env))"

definition in_array :: "'a \<Rightarrow> 'a list \<Rightarrow> bool" where
  "in_array x xs = (x \<in> set xs)"

text \<open>
  Modelled from the spec: \<^verbatim>\<open>is_int\<close> is not in \<^verbatim>\<open>src/entity.js\<close>. Section 4.5 step 1: the id
  must be "a single integer-like value", which step 2 can "coerce to integer": a number,
  or a string that \<^verbatim>\<open>parseInt\<close> reads as one.
\<close>

fun is_int :: "jsval \<Rightarrow> bool" where
  "is_int (Num n) = True"
| "is_int (Str s) = (parseInt s \<noteq> None)"
| "is_int v = False"

definition queue_key :: "string \<Rightarrow> string \<Rightarrow> jsval \<Rightarrow> string \<times> string \<times> string" where
  "queue_key entity_type method entity_id = (entity_type, method, to_string entity_id)"

definition callbacks_of :: "queue_entry \<Rightarrow> string \<Rightarrow> jsval list" where
  "callbacks_of q callback_type =
     (if callback_type = ''success'' then success_callbacks q
      else if callback_type = ''error'' then error_callbacks q
      else [])"

text \<open>
  Modelled from the spec: \<^verbatim>\<open>_services_queue_already_queued\<close> is not in \<^verbatim>\<open>src/entity.js\<close>.
  Section 4.4, \<open>isQueued(type, operation, id) -> bool\<close>; the call of line 79 passes the
  kind of callback, \<^verbatim>\<open>'success'\<close>. By sections 3 and 5 an entry is created on the first
  request and "cleared only by successful drain", and the drain (line 166) clears it by
  resetting its success list: a key is queued while it has an entry whose list of
  that kind is not empty.
\<close>

definition services_queue_already_queued ::
    "string \<Rightarrow> string \<Rightarrow> jsval \<Rightarrow> string \<Rightarrow> jsval js" where
  "services_queue_already_queued entity_type method entity_id callback_type w =
     (case services_queue w (queue_key entity_type method entity_id) of
        None \<Rightarrow> (Inr (Bool False), w)
      | Some q \<Rightarrow> (Inr (Bool (callbacks_of q callback_type \<noteq> [])), w))"

text \<open>
  Modelled from the spec: \<^verbatim>\<open>_services_queue_add_to_queue\<close> is not in \<^verbatim>\<open>src/entity.js\<close>.
  Section 4.4, \<open>enqueue\<close>: "creates the queue entry if absent; no-op if already present".
\<close>

definition services_queue_add_to_queue :: "string \<Rightarrow> string \<Rightarrow> jsval \<Rightarrow> unit js" where
  "services_queue_add_to_queue entity_type method entity_id w =
     (let k = queue_key entity_type method entity_id in
      case services_queue w k of
        None \<Rightarrow>
          (Inr (), w\<lparr>services_queue :=
             (services_queue w)(k \<mapsto> \<lparr>success_callbacks = [], error_callbacks = []\<rparr>)\<rparr>)
      | Some q \<Rightarrow> (Inr (), w))"

text \<open>
  Modelled from the spec: \<^verbatim>\<open>_services_queue_callback_add\<close> is not in \<^verbatim>\<open>src/entity.js\<close>.
  Section 4.4, \<open>addCallback\<close>: "appends to the corresponding list". With no entry for
  the key there is no list to append to: by section 7 the fault stays inside the
  operation, which does nothing.
\<close>

definition services_queue_callback_add ::
    "string \<Rightarrow> string \<Rightarrow> jsval \<Rightarrow> string \<Rightarrow> jsval \<Rightarrow> unit js" where
  "services_queue_callback_add entity_type method entity_id callback_type callback w =
     (let k = queue_key entity_type method entity_id in
      case services_queue w k of
        None \<Rightarrow> (Inr (), w)
      | Some q \<Rightarrow>
          (Inr (), w\<lparr>services_queue := (services_queue w)(k \<mapsto>
             (if callback_type = ''success''
                then q\<lparr>success_callbacks := success_callbacks q @ [callback]\<rparr>
              else if callback_type = ''error''
                then q\<lparr>error_callbacks := error_callbacks q @ [callback]\<rparr>
              else q))\<rparr>))"


text \<open>A remote handler other than retrieve is called: \<^verbatim>\<open>fn(a, options)\<close>.\<close>

definition remote :: "string \<Rightarrow> jsval \<Rightarrow> jsval \<Rightarrow> unit js" where
  "remote function_name a options w =
     (Inr (), w\<lparr>trace := trace w @ [Remote function_name a options]\<rparr>)"

text \<open>
  The items \<^verbatim>\<open>v[0]\<close>, ..., \<^verbatim>\<open>v[v.length - 1]\<close> a \<^verbatim>\<open>for\<close> loop over \<^verbatim>\<open>v.length\<close> visits:
  reading \<^verbatim>\<open>length\<close> of undefined or null throws, and a value without a numeric
  \<^verbatim>\<open>length\<close> has no items.
\<close>

fun array_items :: "jsval \<Rightarrow> exn + jsval list" where
  "array_items Undefined = Inl TypeError"
| "array_items Null = Inl TypeError"
| "array_items (Arr xs) = Inr xs"
| "array_items (Str s) = Inr (map (\<lambda>c. Str [c]) s)"
| "array_items (Obj fs) =
     Inr (case map_of fs ''length'' of
            Some (Num n) \<Rightarrow>
              map (\<lambda>i. case map_of fs (digits i) of None \<Rightarrow> Undefined | Some v \<Rightarrow> v) [0..<nat n]
          | _ \<Rightarrow> [])"
| "array_items v = Inr []"

section \<open>The functions of \<^verbatim>\<open>src/entity.js\<close>\<close>

text \<open>
  Each function of the file is a \<^verbatim>\<open>try\<close> block with a \<^verbatim>\<open>catch\<close> that logs: the model of
  \<open>f\<close> is \<open>try_catch\<close> around \<open>f_body\<close>. A leading underscore of a JavaScript name is
  dropped. A function whose block cannot throw here is written without it.
\<close>

subsection \<open>\<^verbatim>\<open>entity_delete\<close> (lines 7-19)\<close>

definition entity_delete_body :: "env \<Rightarrow> string \<Rightarrow> jsval \<Rightarrow> jsval \<Rightarrow> jsval js" where
  "entity_delete_body env entity_type ids options =
     (let function_name = entity_type @ ''_delete'' in
      if function_exists env function_name then
        js_bind (remote function_name ids options) (\<lambda>_. js_return Undefined)
      else
        js_bind (console_log (''WARNING: entity_delete - unsupported type: '' @ entity_type))
          (\<lambda>_. js_return Undefined))"

definition entity_delete :: "env \<Rightarrow> string \<Rightarrow> jsval \<Rightarrow> jsval \<Rightarrow> jsval js" where
  "entity_delete env entity_type ids options =
     try_catch ''entity_delete'' Undefined (entity_delete_body env entity_type ids options)"

subsection \<open>Ids and storage keys (lines 26-55)\<close>

fun entity_id_parse :: "jsval \<Rightarrow> jsval" where
  "entity_id_parse (Str s) = (case parseInt s of None \<Rightarrow> NaN | Some n \<Rightarrow> Num n)"
| "entity_id_parse v = v"

definition entity_local_storage_key :: "string \<Rightarrow> jsval \<Rightarrow> string" where
  "entity_local_storage_key entity_type entity_id = entity_type @ ''_'' @ to_string entity_id"

definition entity_index_local_storage_key :: "string \<Rightarrow> string" where
  "entity_index_local_storage_key path = path"

subsection \<open>Settings and expiration (lines 379-431)\<close>

text \<open>\<^verbatim>\<open>Drupal.settings.cache.entity && Drupal.settings.cache.entity.enabled\<close>.\<close>

definition entity_caching_enabled :: "env \<Rightarrow> jsval" where
  "entity_caching_enabled env =
     (case cache_entity env of None \<Rightarrow> Undefined | Some c \<Rightarrow> Bool (cache_enabled c))"

text \<open>
  Line 395 compares the expiration setting with the string \<^verbatim>\<open>'undefined'\<close>, which a
  number never equals: the test is \<^verbatim>\<open>enabled\<close> alone.
\<close>

definition entity_get_expiration_time_body :: "env \<Rightarrow> jsval js" where
  "entity_get_expiration_time_body env =
     (case cache_entity env of
        None \<Rightarrow> js_throw TypeError
      | Some c \<Rightarrow>
          js_return
            (if cache_enabled c then
               (if cache_expiration c = 0 then Num 0
                else Num (time_now env + cache_expiration c))
             else Null))"

definition entity_get_expiration_time :: "env \<Rightarrow> jsval js" where
  "entity_get_expiration_time env =
     try_catch ''_entity_get_expiration_time'' Undefined (entity_get_expiration_time_body env)"

text \<open>
  \<^verbatim>\<open>_entity_set_expiration_time(entity)\<close> changes its argument in place and returns
  nothing: the model returns the entity as it is after the call.
\<close>

definition entity_set_expiration_time :: "env \<Rightarrow> jsval \<Rightarrow> jsval js" where
  "entity_set_expiration_time env entity =
     try_catch ''_entity_set_expiration_time'' entity
       (js_bind (entity_get_expiration_time env)
          (\<lambda>expiration. js_lift (set_prop entity ''expiration'' expiration)))"

definition entity_types :: "string list" where
  "entity_types =
     [''comment'', ''file'', ''node'', ''taxonomy_term'', ''taxonomy_vocabulary'', ''user'']"

subsection \<open>The entity cache in local storage (lines 206-292)\<close>

definition entity_local_storage_delete_body :: "string \<Rightarrow> jsval \<Rightarrow> jsval js" where
  "entity_local_storage_delete_body entity_type entity_id =
     (let storage_key = entity_local_storage_key entity_type entity_id in
      js_bind (removeItem storage_key) (\<lambda>_. js_return Undefined))"

definition entity_local_storage_delete :: "string \<Rightarrow> jsval \<Rightarrow> jsval js" where
  "entity_local_storage_delete entity_type entity_id =
     try_catch ''_entity_local_storage_delete'' Undefined
       (entity_local_storage_delete_body entity_type entity_id)"

definition entity_local_storage_save_body :: "env \<Rightarrow> string \<Rightarrow> jsval \<Rightarrow> jsval \<Rightarrow> jsval js" where
  "entity_local_storage_save_body env entity_type entity_id entity =
     js_bind
       (setItem env (entity_local_storage_key entity_type entity_id) (JSON_stringify entity))
       (\<lambda>_. js_return Undefined)"

definition entity_local_storage_save :: "env \<Rightarrow> string \<Rightarrow> jsval \<Rightarrow> jsval \<Rightarrow> jsval js" where
  "entity_local_storage_save env entity_type entity_id entity =
     try_catch ''_entity_local_storage_save'' Undefined
       (entity_local_storage_save_body env entity_type entity_id entity)"

text \<open>
  Lines 241-254, once the entity is known not to have expired: the cached copy is
  returned unless DrupalGap is reloading the page without \<^verbatim>\<open>reset === false\<close>, when the
  entry is removed. Reading the global \<^verbatim>\<open>drupalgap\<close> where none is declared throws.
\<close>

definition entity_not_expired :: "env \<Rightarrow> string \<Rightarrow> jsval \<Rightarrow> jsval \<Rightarrow> jsval js" where
  "entity_not_expired env entity_type entity_id entity =
     (case drupalgap env of
        None \<Rightarrow> js_throw ReferenceError
      | Some None \<Rightarrow> js_return entity
      | Some (Some page) \<Rightarrow>
          if page_reloadingPage page then
            (if page_reset page = Bool False then js_return entity
             else js_bind (entity_local_storage_delete entity_type entity_id)
                    (\<lambda>_. js_return (Bool False)))
          else js_return entity)"

definition entity_local_storage_load_body :: "env \<Rightarrow> string \<Rightarrow> jsval \<Rightarrow> jsval \<Rightarrow> jsval js" where
  "entity_local_storage_load_body env entity_type entity_id options =
     js_bind
       (if truthy options then
          js_bind (js_lift (get_prop options ''reset''))
            (\<lambda>reset. if truthy reset then entity_local_storage_delete entity_type entity_id
                      else js_return Undefined)
        else js_return Undefined)
       (\<lambda>_. let local_storage_key = entity_local_storage_key entity_type entity_id in
          js_bind (getItem local_storage_key)
            (\<lambda>item. case item of
               None \<Rightarrow> js_return Null
             | Some text \<Rightarrow>
                 if text = Raw [] then js_return (Str [])
                 else
                   js_bind (js_lift (JSON_parse text))
                     (\<lambda>entity. js_bind (js_lift (get_prop entity ''expiration''))
                        (\<lambda>expiration.
                           if expiration \<noteq> Undefined \<and> not_equal_zero expiration \<and>
                              greater_than (time_now env) expiration
                           then
                             js_bind (entity_local_storage_delete entity_type entity_id)
                               (\<lambda>_. js_return (Bool False))
                           else entity_not_expired env entity_type entity_id entity))))"

definition entity_local_storage_load :: "env \<Rightarrow> string \<Rightarrow> jsval \<Rightarrow> jsval \<Rightarrow> jsval js" where
  "entity_local_storage_load env entity_type entity_id options =
     try_catch ''_entity_local_storage_load'' Undefined
       (entity_local_storage_load_body env entity_type entity_id options)"

subsection \<open>\<^verbatim>\<open>entity_primary_key\<close> (lines 299-327)\<close>

text \<open>
  \<^verbatim>\<open>drupalgap_function_exists\<close> is DrupalGap's: where the framework is not loaded the
  call throws a ReferenceError.
\<close>

definition entity_primary_key_body :: "env \<Rightarrow> string \<Rightarrow> jsval js" where
  "entity_primary_key_body env entity_type =
     (if entity_type = ''comment'' then js_return (Str ''cid'')
      else if entity_type = ''file'' then js_return (Str ''fid'')
      else if entity_type = ''node'' then js_return (Str ''nid'')
      else if entity_type = ''taxonomy_term'' then js_return (Str ''tid'')
      else if entity_type = ''taxonomy_vocabulary'' then js_return (Str ''vid'')
      else if entity_type = ''user'' then js_return (Str ''uid'')
      else
        (let function_name = entity_type @ ''_primary_key'' in
         case drupalgap env of
           None \<Rightarrow> js_throw ReferenceError
         | Some _ \<Rightarrow>
             if function_exists env function_name then
               js_return (primary_key_provider env entity_type)
             else
               js_bind
                 (console_log
                    (''entity_primary_key - unsupported entity type ('' @ entity_type @
                     '') - to add support, declare '' @ function_name @
                     ''() and have it return the primary key column name as a string''))
                 (\<lambda>_. js_return Undefined)))"

definition entity_primary_key :: "env \<Rightarrow> string \<Rightarrow> jsval js" where
  "entity_primary_key env entity_type =
     try_catch ''entity_primary_key'' Undefined (entity_primary_key_body env entity_type)"


subsection \<open>\<^verbatim>\<open>entity_save\<close> (lines 336-374)\<close>

text \<open>
  \<^verbatim>\<open>if (!entity.KEY) { function_name = 'TYPE_create'; } else { function_name =
  'TYPE_update'; }\<close>
\<close>

definition create_or_update :: "jsval \<Rightarrow> string \<Rightarrow> string \<Rightarrow> string option js" where
  "create_or_update entity key entity_type =
     js_bind (js_lift (get_prop entity key))
       (\<lambda>id. js_return
          (Some (if \<not> truthy id then entity_type @ ''_create'' else entity_type @ ''_update'')))"

text \<open>
  The \<^verbatim>\<open>switch\<close>: the entity as the statement leaves it (a node may have got its
  language) and \<^verbatim>\<open>function_name\<close>, \<open>None\<close> while it is undefined.
\<close>

definition entity_save_function_name ::
    "env \<Rightarrow> string \<Rightarrow> jsval \<Rightarrow> (jsval \<times> string option) js" where
  "entity_save_function_name env entity_type entity =
     (if entity_type = ''comment'' then
        js_bind (create_or_update entity ''cid'' ''comment'') (\<lambda>f. js_return (entity, f))
      else if entity_type = ''file'' then js_return (entity, Some ''file_create'')
      else if entity_type = ''node'' then
        js_bind (js_lift (get_prop entity ''language''))
          (\<lambda>language.
             js_bind
               (if \<not> truthy language
                  then js_lift (set_prop entity ''language'' (Str (language_default env)))
                else js_return entity)
               (\<lambda>entity'.
                  js_bind (create_or_update entity' ''nid'' ''node'')
                    (\<lambda>f. js_return (entity', f))))
      else if entity_type = ''user'' then
        js_bind (create_or_update entity ''uid'' ''user'') (\<lambda>f. js_return (entity, f))
      else if entity_type = ''taxonomy_term'' then
        js_bind (create_or_update entity ''tid'' ''taxonomy_term'') (\<lambda>f. js_return (entity, f))
      else if entity_type = ''taxonomy_vocabulary'' then
        js_bind (create_or_update entity ''vid'' ''taxonomy_vocabulary'')
          (\<lambda>f. js_return (entity, f))
      else js_return (entity, None))"

definition entity_save_body :: "env \<Rightarrow> string \<Rightarrow> jsval \<Rightarrow> jsval \<Rightarrow> jsval \<Rightarrow> jsval js" where
  "entity_save_body env entity_type bundle entity options =
     js_bind (entity_save_function_name env entity_type entity)
       (\<lambda>(entity', function_name).
          case function_name of
            None \<Rightarrow>
              js_bind (console_log (''WARNING: entity_save - unsupported type: '' @ entity_type))
                (\<lambda>_. js_return Undefined)
          | Some f \<Rightarrow>
              if function_exists env f then
                js_bind (remote f entity' options) (\<lambda>_. js_return Undefined)
              else
                js_bind
                  (console_log (''WARNING: entity_save - unsupported type: '' @ entity_type))
                  (\<lambda>_. js_return Undefined))"

definition entity_save :: "env \<Rightarrow> string \<Rightarrow> jsval \<Rightarrow> jsval \<Rightarrow> jsval \<Rightarrow> jsval js" where
  "entity_save env entity_type bundle entity options =
     try_catch ''entity_save'' Undefined (entity_save_body env entity_type bundle entity options)"

subsection \<open>\<^verbatim>\<open>entity_load\<close> (lines 63-196)\<close>

text \<open>\<^verbatim>\<open>if (options.success) { options.success(entity); }\<close> (lines 88 and 129).\<close>

definition send_to_success :: "jsval \<Rightarrow> jsval \<Rightarrow> unit js" where
  "send_to_success options entity =
     js_bind (js_lift (get_prop options ''success''))
       (\<lambda>success. if truthy success then js_bind (call success [entity]) (\<lambda>_. js_return ())
                   else js_return ())"

text \<open>Lines 92-110: the entity is queued already and no cached copy was sent.\<close>

definition entity_load_set_aside :: "string \<Rightarrow> jsval \<Rightarrow> jsval \<Rightarrow> jsval js" where
  "entity_load_set_aside entity_type entity_id options =
     js_bind (js_lift (get_prop options ''success''))
       (\<lambda>success.
          js_bind
            (if success \<noteq> Undefined
               then services_queue_callback_add entity_type ''retrieve'' entity_id ''success''
                      success
             else js_return ())
            (\<lambda>_. js_bind (js_lift (get_prop options ''error''))
               (\<lambda>error.
                  js_bind
                    (if error \<noteq> Undefined
                       then services_queue_callback_add entity_type ''retrieve'' entity_id
                              ''error'' error
                     else js_return ())
                    (\<lambda>_. js_return Undefined))))"

text \<open>Lines 134-193: the entity is fetched from the server.\<close>

definition entity_load_retrieve ::
    "env \<Rightarrow> string \<Rightarrow> jsval \<Rightarrow> jsval \<Rightarrow> jsval \<Rightarrow> jsval \<Rightarrow> jsval js" where
  "entity_load_retrieve env entity_type ids entity_id caching_enabled options =
     (if \<not> in_array entity_type entity_types then
        (let message = ''WARNING: entity_load - unsupported type: '' @ entity_type in
         js_bind (console_log message)
           (\<lambda>_. js_bind (js_lift (get_prop options ''error''))
              (\<lambda>error.
                 if truthy error
                   then js_bind (call error [Null, Null, Str message]) (\<lambda>_. js_return Undefined)
                 else js_return Undefined)))
      else
        js_bind (entity_primary_key env entity_type)
          (\<lambda>primary_key.
             let function_name = entity_type @ ''_retrieve'' in
             if function_exists env function_name then
               (\<lambda>w. (Inr Undefined,
                  w\<lparr>trace := trace w @
                     [Retrieve function_name ids
                        \<lparr>cl_entity_type = entity_type, cl_entity_id = entity_id,
                         cl_caching_enabled = caching_enabled, cl_options = options,
                         cl_primary_key = primary_key\<rparr>]\<rparr>))
             else
               js_bind (console_log (''WARNING: '' @ function_name @ ''() does not exist!''))
                 (\<lambda>_. js_return Undefined)))"

definition entity_load_body :: "env \<Rightarrow> string \<Rightarrow> jsval \<Rightarrow> jsval \<Rightarrow> jsval js" where
  "entity_load_body env entity_type ids options =
     (if \<not> is_int ids then
        js_bind
          (console_log (''entity_load('' @ entity_type @ '') - only single ids supported!''))
          (\<lambda>_. js_return Undefined)
      else
        (let caching_enabled = entity_caching_enabled env;
             entity_id = entity_id_parse ids
         in
         js_bind (services_queue_already_queued entity_type ''retrieve'' entity_id ''success'')
           (\<lambda>queued.
              if truthy queued then
                js_bind
                  (if truthy caching_enabled
                     then entity_local_storage_load env entity_type entity_id options
                   else js_return Undefined)
                  (\<lambda>entity.
                     if truthy caching_enabled \<and> truthy entity then
                       js_bind (send_to_success options entity) (\<lambda>_. js_return Undefined)
                     else entity_load_set_aside entity_type entity_id options)
              else
                js_bind (services_queue_add_to_queue entity_type ''retrieve'' entity_id)
                  (\<lambda>_. js_bind (js_lift (get_prop options ''success''))
                     (\<lambda>success.
                        js_bind
                          (services_queue_callback_add entity_type ''retrieve'' entity_id
                             ''success'' success)
                          (\<lambda>_. js_bind
                             (if truthy caching_enabled
                                then entity_local_storage_load env entity_type entity_id options
                              else js_return (Bool False))
                             (\<lambda>entity.
                                if truthy caching_enabled \<and> truthy entity then
                                  js_bind (send_to_success options entity)
                                    (\<lambda>_. js_return Undefined)
                                else
                                  entity_load_retrieve env entity_type ids entity_id
                                    caching_enabled options)))))))"

definition entity_load :: "env \<Rightarrow> string \<Rightarrow> jsval \<Rightarrow> jsval \<Rightarrow> jsval js" where
  "entity_load env entity_type ids options =
     try_catch ''entity_load'' Undefined (entity_load_body env entity_type ids options)"

text \<open>
  \<^verbatim>\<open>call_options.success\<close> (lines 146-173), run by the retrieve handler with the data of
  the server, in the environment of that moment. \<^verbatim>\<open>_entity_set_expiration_time\<close> writes
  into the object it is given, so what is saved and what the callbacks get is the data
  with its \<^verbatim>\<open>expiration\<close> property.
\<close>

fun call_each :: "jsval list \<Rightarrow> jsval \<Rightarrow> unit js" where
  "call_each [] entity = js_return ()"
| "call_each (f # fs) entity = js_bind (call f [entity]) (\<lambda>_. call_each fs entity)"

definition reset_success_callbacks :: "string \<times> string \<times> string \<Rightarrow> unit js" where
  "reset_success_callbacks k w =
     (case services_queue w k of
        None \<Rightarrow> (Inl TypeError, w)
      | Some q \<Rightarrow>
          (Inr (), w\<lparr>services_queue := (services_queue w)(k \<mapsto> q\<lparr>success_callbacks := []\<rparr>)\<rparr>))"

definition entity_load_success_body :: "env \<Rightarrow> retrieve_call \<Rightarrow> jsval \<Rightarrow> jsval js" where
  "entity_load_success_body env cl data =
     js_bind
       (if truthy (cl_caching_enabled cl) then
          js_bind (entity_set_expiration_time env data)
            (\<lambda>entity.
               js_bind
                 (entity_local_storage_save env (cl_entity_type cl) (cl_entity_id cl) entity)
                 (\<lambda>_. js_return entity))
        else js_return data)
       (\<lambda>entity. let k = queue_key (cl_entity_type cl) ''retrieve'' (cl_entity_id cl) in
          (\<lambda>w. case services_queue w k of
                  None \<Rightarrow> (Inl TypeError, w)
                | Some q \<Rightarrow>
                    js_bind (call_each (success_callbacks q) entity)
                      (\<lambda>_. js_bind (reset_success_callbacks k) (\<lambda>_. js_return Undefined)) w))"

definition entity_load_success :: "env \<Rightarrow> retrieve_call \<Rightarrow> jsval \<Rightarrow> jsval js" where
  "entity_load_success env cl data =
     try_catch ''entity_load - success'' Undefined (entity_load_success_body env cl data)"

text \<open>\<^verbatim>\<open>call_options.error\<close> (lines 174-181).\<close>

definition entity_load_error :: "retrieve_call \<Rightarrow> jsval \<Rightarrow> jsval \<Rightarrow> jsval \<Rightarrow> jsval js" where
  "entity_load_error cl xhr status message =
     try_catch ''entity_load - error'' Undefined
       (js_bind (js_lift (get_prop (cl_options cl) ''error''))
          (\<lambda>error.
             if truthy error then js_bind (call error [xhr, status, message]) (\<lambda>_. js_return Undefined)
             else js_return Undefined))"

subsection \<open>The index cache in local storage (lines 441-521)\<close>

definition entity_index_local_storage_delete :: "string \<Rightarrow> jsval js" where
  "entity_index_local_storage_delete path =
     try_catch ''_entity_index_local_storage_delete'' Undefined
       (let storage_key = entity_index_local_storage_key path in
        js_bind (removeItem storage_key) (\<lambda>_. js_return Undefined))"

text \<open>The loop of lines 469-477.\<close>

fun load_each :: "env \<Rightarrow> string \<Rightarrow> jsval list \<Rightarrow> jsval \<Rightarrow> jsval list js" where
  "load_each env entity_type [] options = js_return []"
| "load_each env entity_type (entity_id # entity_ids) options =
     js_bind (entity_local_storage_load env entity_type entity_id options)
       (\<lambda>entity. js_bind (load_each env entity_type entity_ids options)
          (\<lambda>result. js_return (entity # result)))"

definition entity_index_local_storage_load_body ::
    "env \<Rightarrow> string \<Rightarrow> string \<Rightarrow> jsval \<Rightarrow> jsval js" where
  "entity_index_local_storage_load_body env entity_type path options =
     js_bind
       (if truthy options then
          js_bind (js_lift (get_prop options ''reset''))
            (\<lambda>reset. if truthy reset then entity_index_local_storage_delete path
                      else js_return Undefined)
        else js_return Undefined)
       (\<lambda>_. let local_storage_key = entity_index_local_storage_key path in
          js_bind (getItem local_storage_key)
            (\<lambda>item. case item of
               None \<Rightarrow> js_return Null
             | Some text \<Rightarrow>
                 if text = Raw [] then js_return (Str [])
                 else
                   js_bind (js_lift (JSON_parse text))
                     (\<lambda>entity_index. js_bind (js_lift (get_prop entity_index ''expiration''))
                        (\<lambda>expiration.
                           if expiration \<noteq> Undefined \<and> not_equal_zero expiration \<and>
                              greater_than (time_now env) expiration
                           then
                             js_bind (entity_index_local_storage_delete path)
                               (\<lambda>_. js_return (Bool False))
                           else
                             js_bind (js_lift (get_prop entity_index ''entity_ids''))
                               (\<lambda>entity_ids. js_bind (js_lift (array_items entity_ids))
                                  (\<lambda>ids. js_bind (load_each env entity_type ids options)
                                     (\<lambda>result. js_return (Arr result))))))))"

definition entity_index_local_storage_load ::
    "env \<Rightarrow> string \<Rightarrow> string \<Rightarrow> jsval \<Rightarrow> jsval js" where
  "entity_index_local_storage_load env entity_type path options =
     try_catch ''_entity_index_local_storage_load'' Undefined
       (entity_index_local_storage_load_body env entity_type path options)"

text \<open>The loop of lines 500-502: \<^verbatim>\<open>result[i][entity_primary_key(entity_type)]\<close>.\<close>

fun index_entity_ids :: "env \<Rightarrow> string \<Rightarrow> jsval list \<Rightarrow> jsval list js" where
  "index_entity_ids env entity_type [] = js_return []"
| "index_entity_ids env entity_type (entity # entities) =
     js_bind (entity_primary_key env entity_type)
       (\<lambda>primary_key. js_bind (js_lift (get_prop entity (to_string primary_key)))
          (\<lambda>entity_id. js_bind (index_entity_ids env entity_type entities)
             (\<lambda>entity_ids. js_return (entity_id # entity_ids))))"

definition entity_index_local_storage_save_body ::
    "env \<Rightarrow> string \<Rightarrow> string \<Rightarrow> jsval \<Rightarrow> jsval js" where
  "entity_index_local_storage_save_body env entity_type path result =
     js_bind (entity_get_expiration_time env)
       (\<lambda>expiration. js_bind (js_lift (array_items result))
          (\<lambda>entities. js_bind (index_entity_ids env entity_type entities)
             (\<lambda>entity_ids.
                js_bind
                  (setItem env (entity_index_local_storage_key path)
                     (JSON_stringify
                        (Obj [(''entity_type'', Str entity_type),
                              (''expiration'', expiration),
                              (''entity_ids'', Arr entity_ids)])))
                  (\<lambda>_. js_return Undefined))))"

definition entity_index_local_storage_save ::
    "env \<Rightarrow> string \<Rightarrow> string \<Rightarrow> jsval \<Rightarrow> jsval js" where
  "entity_index_local_storage_save env entity_type path result =
     try_catch ''_entity_index_local_storage_save'' Undefined
       (entity_index_local_storage_save_body env entity_type path result)"


section \<open>Properties\<close>

lemmas js_defs = js_return_def js_throw_def js_bind_def js_lift_def console_log_def
  try_catch_def call_def getItem_def setItem_def removeItem_def remote_def

subsection \<open>Deleting an entity\<close>

text \<open>
  Claim C9. \<^verbatim>\<open>entity_delete(entity_type, ids, options)\<close> only calls the remote delete
  handler of the type, where one exists: local storage, and with it every cached
  entity, and the queue of services are after the call what they were before it, and
  the one thing that leaves the library is the call \<^verbatim>\<open>TYPE_delete(ids, options)\<close>.
\<close>

theorem entity_delete_leaves_cache_and_queue:
  "local_storage (snd (entity_delete env entity_type ids options w)) = local_storage w \<and>
   services_queue (snd (entity_delete env entity_type ids options w)) = services_queue w \<and>
   trace (snd (entity_delete env entity_type ids options w)) =
     trace w @ (if function_exists env (entity_type @ ''_delete'')
                then [Remote (entity_type @ ''_delete'') ids options] else [])"
  by (simp add: entity_delete_def entity_delete_body_def js_defs Let_def)

subsection \<open>Loading with ids that are not one id\<close>

text \<open>
  Claim C6. \<^verbatim>\<open>entity_load\<close> with an array of ids, whatever the options: the message is
  logged and the function returns. Nothing is queued, local storage is not touched, no
  handler is called, and no callback runs: an \<^verbatim>\<open>options.error\<close> is not told, unlike on the
  path for an unsupported type (lines 135-139), which calls it with its message.
\<close>

theorem entity_load_array_of_ids_only_logs:
  "entity_load env entity_type (Arr xs) options w =
     (Inr Undefined,
      w\<lparr>console := console w @
         [''entity_load('' @ entity_type @ '') - only single ids supported!'']\<rparr>)"
  by (simp add: entity_load_def entity_load_body_def js_defs)

subsection \<open>An example environment\<close>

text \<open>
  DrupalGap is loaded and shows no page, entity caching is on with a life time of 60
  seconds, and the node and file handlers exist; the world is empty.
\<close>

definition env0 :: env where
  "env0 = \<lparr>time_now = 1000,
           cache_entity = Some \<lparr>cache_enabled = True, cache_expiration = 60\<rparr>,
           drupalgap = Some None,
           window_functions =
             [''node_retrieve'', ''node_create'', ''node_update'', ''node_delete'',
              ''file_create'', ''file_update''],
           primary_key_provider = (\<lambda>t. Undefined),
           language_default = ''und'',
           quota_exceeded = False\<rparr>"

definition w0 :: world where
  "w0 = \<lparr>local_storage = Map.empty, services_queue = Map.empty, console = [], trace = []\<rparr>"

subsection \<open>Saving an entity\<close>

lemma in_entity_types:
  "entity_type \<in> set entity_types \<longleftrightarrow>
     entity_type = ''comment'' \<or> entity_type = ''file'' \<or> entity_type = ''node'' \<or>
     entity_type = ''taxonomy_term'' \<or> entity_type = ''taxonomy_vocabulary'' \<or>
     entity_type = ''user''"
  unfolding entity_types_def by (simp only: list.set insert_iff empty_iff simp_thms)

lemma entity_primary_key_table:
  "entity_primary_key env ''comment'' w = (Inr (Str ''cid''), w)"
  "entity_primary_key env ''file'' w = (Inr (Str ''fid''), w)"
  "entity_primary_key env ''node'' w = (Inr (Str ''nid''), w)"
  "entity_primary_key env ''taxonomy_term'' w = (Inr (Str ''tid''), w)"
  "entity_primary_key env ''taxonomy_vocabulary'' w = (Inr (Str ''vid''), w)"
  "entity_primary_key env ''user'' w = (Inr (Str ''uid''), w)"
  by (simp_all add: entity_primary_key_def entity_primary_key_body_def js_defs)

lemmas entity_save_defs = entity_save_def entity_save_body_def
  entity_save_function_name_def create_or_update_def

text \<open>
  Claim C7, as amended. For an entity type of \<open>entity_types\<close> whose primary key is \<open>key\<close>
  and an entity object: \<^verbatim>\<open>entity_save\<close> calls \<^verbatim>\<open>TYPE_update(entity, options)\<close> when
  \<^verbatim>\<open>entity[key]\<close> is truthy and \<^verbatim>\<open>TYPE_create(entity, options)\<close> when it is not, except for
  the type file, which is always created; the handler called must exist. A node
  without a truthy \<^verbatim>\<open>language\<close> is given the default language before the call, and the
  handler gets the entity with it.
\<close>

theorem entity_save_create_or_update:
  assumes "entity_type \<in> set entity_types"
    and "fst (entity_primary_key env entity_type w) = Inr (Str key)"
    and "get_prop (Obj fs) key = Inr pk"
    and "get_prop (Obj fs) ''language'' = Inr language"
    and "handler = (if entity_type = ''file'' then ''file_create''
                    else if truthy pk then entity_type @ ''_update''
                    else entity_type @ ''_create'')"
    and "function_exists env handler"
    and "entity' = (if entity_type = ''node'' \<and> \<not> truthy language
                    then Obj (AList.update ''language'' (Str (language_default env)) fs)
                    else Obj fs)"
  shows "entity_save env entity_type bundle (Obj fs) options w =
           (Inr Undefined, w\<lparr>trace := trace w @ [Remote handler entity' options]\<rparr>)"
proof -
  note defs = entity_primary_key_table entity_save_defs js_defs update_conv'
  from assms(1) have "entity_type = ''comment'' \<or> entity_type = ''file'' \<or>
      entity_type = ''node'' \<or> entity_type = ''taxonomy_term'' \<or>
      entity_type = ''taxonomy_vocabulary'' \<or> entity_type = ''user''"
    by (simp only: in_entity_types)
  then show ?thesis
  proof (elim disjE)
    assume t: "entity_type = ''comment''"
    show ?thesis using assms(2-) unfolding t by (auto simp add: defs split: if_splits)
  next
    assume t: "entity_type = ''file''"
    show ?thesis using assms(2-) unfolding t by (auto simp add: defs split: if_splits)
  next
    assume t: "entity_type = ''node''"
    show ?thesis using assms(2-) unfolding t by (auto simp add: defs split: if_splits)
  next
    assume t: "entity_type = ''taxonomy_term''"
    show ?thesis using assms(2-) unfolding t by (auto simp add: defs split: if_splits)
  next
    assume t: "entity_type = ''taxonomy_vocabulary''"
    show ?thesis using assms(2-) unfolding t by (auto simp add: defs split: if_splits)
  next
    assume t: "entity_type = ''user''"
    show ?thesis using assms(2-) unfolding t by (auto simp add: defs split: if_splits)
  qed
qed

text \<open>
  The theorem at \<^verbatim>\<open>entity_save('node', 'article', {nid: 7, title: 'x'}, {})\<close>: the update
  handler is called, with the language added.
\<close>

theorem entity_save_create_or_update_witness:
  "''node'' \<in> set entity_types \<and>
   fst (entity_primary_key env0 ''node'' w0) = Inr (Str ''nid'') \<and>
   function_exists env0 ''node_update'' \<and>
   entity_save env0 ''node'' (Str ''article'') (Obj [(''nid'', Num 7), (''title'', Str ''x'')])
       (Obj []) w0 =
     (Inr Undefined,
      w0\<lparr>trace := trace w0 @
         [Remote ''node_update''
            (Obj [(''nid'', Num 7), (''title'', Str ''x''), (''language'', Str ''und'')])
            (Obj [])]\<rparr>)"
proof -
  have h1: "''node'' \<in> set entity_types" by (simp add: entity_types_def)
  have h2: "fst (entity_primary_key env0 ''node'' w0) = Inr (Str ''nid'')"
    by (simp add: entity_primary_key_table)
  have h3: "get_prop (Obj [(''nid'', Num 7), (''title'', Str ''x'')]) ''nid'' = Inr (Num 7)"
    by simp
  have h4: "get_prop (Obj [(''nid'', Num 7), (''title'', Str ''x'')]) ''language'' = Inr Undefined"
    by simp
  have h5: "''node_update'' = (if ''node'' = ''file'' then ''file_create''
                    else if truthy (Num 7) then ''node'' @ ''_update''
                    else ''node'' @ ''_create'')" by simp
  have h6: "function_exists env0 ''node_update''"
    by (simp add: function_exists_def env0_def)
  have h7: "Obj [(''nid'', Num 7), (''title'', Str ''x''), (''language'', Str ''und'')] =
     (if ''node'' = ''node'' \<and> \<not> truthy Undefined
      then Obj (AList.update ''language'' (Str (language_default env0))
             [(''nid'', Num 7), (''title'', Str ''x'')])
      else Obj [(''nid'', Num 7), (''title'', Str ''x'')])"
    by (simp add: env0_def)
  from entity_save_create_or_update [OF h1 h2 h3 h4 h5 h6 h7] h1 h2 h6
  show ?thesis by simp
qed

text \<open>
  Claim C7 as it was stated fails for the type file: its primary key is \<^verbatim>\<open>fid\<close>, and
  \<^verbatim>\<open>entity_save('file', undefined, {fid: 3}, {})\<close>, where \<^verbatim>\<open>fid\<close> is present and
  \<^verbatim>\<open>file_update\<close> exists, calls \<^verbatim>\<open>file_create\<close> and not \<^verbatim>\<open>file_update\<close>.
\<close>

theorem entity_save_file_counterexample:
  "''file'' \<in> set entity_types \<and>
   fst (entity_primary_key env0 ''file'' w0) = Inr (Str ''fid'') \<and>
   get_prop (Obj [(''fid'', Num 3)]) ''fid'' = Inr (Num 3) \<and> truthy (Num 3) \<and>
   function_exists env0 ''file_update'' \<and>
   entity_save env0 ''file'' Undefined (Obj [(''fid'', Num 3)]) (Obj []) w0 =
     (Inr Undefined,
      w0\<lparr>trace := trace w0 @ [Remote ''file_create'' (Obj [(''fid'', Num 3)]) (Obj [])]\<rparr>) \<and>
   Remote ''file_update'' (Obj [(''fid'', Num 3)]) (Obj []) \<notin>
     set (trace (snd (entity_save env0 ''file'' Undefined (Obj [(''fid'', Num 3)]) (Obj []) w0)))"
  by (simp add: entity_types_def entity_primary_key_table entity_save_defs js_defs
      function_exists_def env0_def w0_def)

subsection \<open>Reading the entity cache\<close>

text \<open>
  \<^verbatim>\<open>options && options.reset\<close>: the caller asks for the cached copy to be dropped (lines
  210-215).
\<close>

definition reset_requested :: "jsval \<Rightarrow> bool" where
  "reset_requested options =
     (truthy options \<and> (case get_prop options ''reset'' of Inl e \<Rightarrow> False | Inr r \<Rightarrow> truthy r))"

text \<open>
  The page context of lines 241-254 lets a cached copy through: DrupalGap is loaded,
  and it is not reloading the page unless with \<^verbatim>\<open>reset === false\<close>.
\<close>

definition page_keeps_cache :: "env \<Rightarrow> bool" where
  "page_keeps_cache env =
     (case drupalgap env of
        None \<Rightarrow> False
      | Some None \<Rightarrow> True
      | Some (Some page) \<Rightarrow>
          (if page_reloadingPage page then page_reset page = Bool False else True))"

text \<open>A node with id 5 and a given expiration, and a world that has cached it.\<close>

definition node5 :: "int \<Rightarrow> jsval" where
  "node5 E = Obj [(''nid'', Num 5), (''title'', Str ''x''), (''expiration'', Num E)]"

definition w_cached :: "int \<Rightarrow> world" where
  "w_cached E = w0\<lparr>local_storage := [''node_5'' \<mapsto> Json (node5 E)]\<rparr>"

lemmas storage_defs = entity_local_storage_load_def entity_local_storage_load_body_def
  entity_local_storage_delete_def entity_local_storage_delete_body_def
  entity_local_storage_save_def entity_local_storage_save_body_def
  entity_not_expired_def

lemma reset_step:
  "(if truthy options then
      js_bind (js_lift (get_prop options ''reset''))
        (\<lambda>reset. if truthy reset then entity_local_storage_delete entity_type entity_id
                  else js_return Undefined)
    else js_return Undefined) w =
   (Inr Undefined,
    if reset_requested options
    then w\<lparr>local_storage :=
           (local_storage w)(entity_local_storage_key entity_type entity_id := None)\<rparr>
    else w)"
  by (cases options) (simp_all add: reset_requested_def storage_defs js_defs)

lemma key_node_5: "entity_local_storage_key ''node'' (Num 5) = ''node_5''"
  by (simp add: entity_local_storage_key_def int_to_string_def digits.simps digit_char_def)

text \<open>
  Claim C2. The entry stored for (entity type, id) is an entity whose \<^verbatim>\<open>expiration\<close> is
  the number \<open>E\<close>. If \<open>E\<close> is not 0 and the time is after \<open>E\<close>, \<^verbatim>\<open>_entity_local_storage_load\<close>
  returns a falsy value (null after a reset, false otherwise), never the entity, and
  the entry is gone from local storage afterwards. If \<open>E\<close> is 0, what the read returns
  and does is the same at every time, and, when no reset is asked for and the page
  context lets cached copies through, it returns the stored entity and leaves the
  world as it was.
\<close>

theorem entity_local_storage_load_expiration:
  assumes "local_storage w (entity_local_storage_key entity_type entity_id) = Some (Json entity)"
    and "get_prop entity ''expiration'' = Inr (Num E)"
  shows "(E \<noteq> 0 \<and> time_now env > E \<longrightarrow>
            fst (entity_local_storage_load env entity_type entity_id options w) =
              Inr (if reset_requested options then Null else Bool False) \<and>
            local_storage (snd (entity_local_storage_load env entity_type entity_id options w))
              (entity_local_storage_key entity_type entity_id) = None) \<and>
         (E = 0 \<longrightarrow>
            (\<forall>t. entity_local_storage_load (env\<lparr>time_now := t\<rparr>) entity_type entity_id options w =
                  entity_local_storage_load env entity_type entity_id options w) \<and>
            (\<not> reset_requested options \<and> page_keeps_cache env \<longrightarrow>
               entity_local_storage_load env entity_type entity_id options w = (Inr entity, w)))"
  using assms
  by (auto simp add: entity_local_storage_load_def entity_local_storage_load_body_def
      js_bind_def [of "if truthy options then _ else _"] reset_step
      entity_local_storage_delete_def entity_local_storage_delete_body_def
      entity_not_expired_def js_defs greater_than_def page_keeps_cache_def Let_def
      split: option.splits)

text \<open>
  The theorem at node 5 in the example environment, where the time is 1000: cached with
  expiration 900 the read returns false and removes the entry; cached with expiration
  0 the read at time 2000000000 returns the entity.
\<close>

theorem entity_local_storage_load_expiration_witness:
  "local_storage (w_cached 900) (entity_local_storage_key ''node'' (Num 5)) =
     Some (Json (node5 900)) \<and>
   get_prop (node5 900) ''expiration'' = Inr (Num 900) \<and> time_now env0 > 900 \<and>
   fst (entity_local_storage_load env0 ''node'' (Num 5) (Obj []) (w_cached 900)) =
     Inr (Bool False) \<and>
   local_storage (snd (entity_local_storage_load env0 ''node'' (Num 5) (Obj []) (w_cached 900)))
     ''node_5'' = None \<and>
   local_storage (w_cached 0) (entity_local_storage_key ''node'' (Num 5)) =
     Some (Json (node5 0)) \<and>
   get_prop (node5 0) ''expiration'' = Inr (Num 0) \<and>
   entity_local_storage_load (env0\<lparr>time_now := 2000000000\<rparr>) ''node'' (Num 5) (Obj [])
     (w_cached 0) = (Inr (node5 0), w_cached 0)"
proof -
  have s1: "local_storage (w_cached 900) (entity_local_storage_key ''node'' (Num 5)) =
      Some (Json (node5 900))"
    by (simp add: key_node_5 w_cached_def)
  have e1: "get_prop (node5 900) ''expiration'' = Inr (Num 900)"
    by (simp add: node5_def)
  have t1: "(900::int) \<noteq> 0 \<and> time_now env0 > 900"
    by (simp add: env0_def)
  have s2: "local_storage (w_cached 0) (entity_local_storage_key ''node'' (Num 5)) =
      Some (Json (node5 0))"
    by (simp add: key_node_5 w_cached_def)
  have e2: "get_prop (node5 0) ''expiration'' = Inr (Num 0)"
    by (simp add: node5_def)
  have r: "\<not> reset_requested (Obj []) \<and> page_keeps_cache env0"
    by (simp add: reset_requested_def page_keeps_cache_def env0_def)
  from entity_local_storage_load_expiration [OF s1 e1, of env0 "Obj []"] t1
  have a: "fst (entity_local_storage_load env0 ''node'' (Num 5) (Obj []) (w_cached 900)) =
      Inr (Bool False)"
    and b: "local_storage
      (snd (entity_local_storage_load env0 ''node'' (Num 5) (Obj []) (w_cached 900)))
      ''node_5'' = None"
    by (simp_all add: key_node_5 reset_requested_def)
  from entity_local_storage_load_expiration [OF s2 e2, of env0 "Obj []"] r
  have c: "entity_local_storage_load (env0\<lparr>time_now := 2000000000\<rparr>) ''node'' (Num 5) (Obj [])
     (w_cached 0) = (Inr (node5 0), w_cached 0)"
    by simp
  from s1 e1 t1 a b s2 e2 c show ?thesis by simp
qed

subsection \<open>Loading an entity that is cached\<close>

text \<open>
  A stored entity that \<^verbatim>\<open>_entity_local_storage_load\<close> and \<^verbatim>\<open>entity_load\<close> take for a
  copy to use: it is truthy and the test of lines 224-226 does not find it expired.
\<close>

definition cache_entry_valid :: "env \<Rightarrow> jsval \<Rightarrow> bool" where
  "cache_entry_valid env entity =
     (truthy entity \<and>
      (case get_prop entity ''expiration'' of
         Inl e \<Rightarrow> False
       | Inr expiration \<Rightarrow>
           (if expiration = Undefined then True
            else if not_equal_zero expiration then \<not> greater_than (time_now env) expiration
            else True)))"

lemma entity_local_storage_load_hit:
  assumes "local_storage w (entity_local_storage_key entity_type entity_id) = Some (Json entity)"
    and "cache_entry_valid env entity"
    and "\<not> reset_requested options"
    and "page_keeps_cache env"
  shows "entity_local_storage_load env entity_type entity_id options w = (Inr entity, w)"
  using assms
  by (auto simp add: entity_local_storage_load_def entity_local_storage_load_body_def
      js_bind_def [of "if truthy options then _ else _"] reset_step
      entity_not_expired_def js_defs cache_entry_valid_def page_keeps_cache_def Let_def
      split: option.splits sum.splits if_splits)

lemmas queue_defs = services_queue_already_queued_def services_queue_add_to_queue_def
  services_queue_callback_add_def callbacks_of_def

text \<open>
  Claim C3, as amended. \<^verbatim>\<open>entity_load\<close> with one id, entity caching enabled, a valid
  entry cached for the entity, no reset asked for in the options, a page context that
  lets cached copies through, and a success callback: the callback is called with the
  cached entity and nothing else leaves the library (no remote retrieve), local storage
  and the console are as before, whatever the queue of services holds.
\<close>

theorem entity_load_cache_hit:
  assumes "is_int ids"
    and "truthy (entity_caching_enabled env)"
    and "local_storage w (entity_local_storage_key entity_type (entity_id_parse ids)) =
           Some (Json entity)"
    and "cache_entry_valid env entity"
    and "\<not> reset_requested options"
    and "page_keeps_cache env"
    and "get_prop options ''success'' = Inr (Fun c)"
  shows "fst (entity_load env entity_type ids options w) = Inr Undefined \<and>
         trace (snd (entity_load env entity_type ids options w)) = trace w @ [Called c [entity]] \<and>
         local_storage (snd (entity_load env entity_type ids options w)) = local_storage w \<and>
         console (snd (entity_load env entity_type ids options w)) = console w"
proof -
  have hit: "\<And>w'. local_storage w' = local_storage w \<Longrightarrow>
      entity_local_storage_load env entity_type (entity_id_parse ids) options w' = (Inr entity, w')"
    using assms by (intro entity_local_storage_load_hit) simp_all
  have t: "truthy entity" using assms(4) by (simp add: cache_entry_valid_def)
  show ?thesis
  proof (cases "services_queue w (queue_key entity_type ''retrieve'' (entity_id_parse ids))")
    case None
    then show ?thesis using assms(1,2,7) t
      by (simp add: entity_load_def entity_load_body_def queue_defs send_to_success_def
          js_defs hit Let_def)
  next
    case (Some q)
    then show ?thesis using assms(1,2,7) t
      by (simp add: entity_load_def entity_load_body_def queue_defs send_to_success_def
          js_defs hit Let_def)
  qed
qed


text \<open>The world that has cached node 5 for ever, with a retrieve of node 5 in flight.\<close>

definition w_cached_queued :: world where
  "w_cached_queued =
     (w_cached 0)\<lparr>services_queue :=
        [(''node'', ''retrieve'', ''5'') \<mapsto>
           \<lparr>success_callbacks = [Fun 9], error_callbacks = []\<rparr>]\<rparr>"

lemma int_to_string_5: "int_to_string 5 = ''5''"
  by (simp add: int_to_string_def digits.simps digit_char_def)

text \<open>
  The theorem at node 5, cached for ever, in the example environment: once with no
  queue entry for it, once with a callback already waiting.
\<close>

theorem entity_load_cache_hit_witness:
  "is_int (Num 5) \<and> truthy (entity_caching_enabled env0) \<and>
   cache_entry_valid env0 (node5 0) \<and> \<not> reset_requested (Obj [(''success'', Fun 1)]) \<and>
   page_keeps_cache env0 \<and>
   services_queue (w_cached 0) (queue_key ''node'' ''retrieve'' (Num 5)) = None \<and>
   trace (snd (entity_load env0 ''node'' (Num 5) (Obj [(''success'', Fun 1)]) (w_cached 0))) =
     [Called 1 [node5 0]] \<and>
   services_queue w_cached_queued (queue_key ''node'' ''retrieve'' (Num 5)) =
     Some \<lparr>success_callbacks = [Fun 9], error_callbacks = []\<rparr> \<and>
   trace (snd (entity_load env0 ''node'' (Num 5) (Obj [(''success'', Fun 1)]) w_cached_queued)) =
     [Called 1 [node5 0]]"
proof -
  have h1: "is_int (Num 5)" by simp
  have h2: "truthy (entity_caching_enabled env0)"
    by (simp add: entity_caching_enabled_def env0_def)
  have h3: "local_storage (w_cached 0) (entity_local_storage_key ''node'' (entity_id_parse (Num 5)))
      = Some (Json (node5 0))"
    by (simp add: key_node_5 w_cached_def)
  have h3': "local_storage w_cached_queued
      (entity_local_storage_key ''node'' (entity_id_parse (Num 5))) = Some (Json (node5 0))"
    by (simp add: key_node_5 w_cached_def w_cached_queued_def)
  have h4: "cache_entry_valid env0 (node5 0)"
    by (simp add: cache_entry_valid_def node5_def)
  have h5: "\<not> reset_requested (Obj [(''success'', Fun 1)])"
    by (simp add: reset_requested_def)
  have h6: "page_keeps_cache env0"
    by (simp add: page_keeps_cache_def env0_def)
  have h7: "get_prop (Obj [(''success'', Fun 1)]) ''success'' = Inr (Fun 1)"
    by simp
  have q1: "services_queue (w_cached 0) (queue_key ''node'' ''retrieve'' (Num 5)) = None"
    by (simp add: w_cached_def w0_def)
  have q2: "services_queue w_cached_queued (queue_key ''node'' ''retrieve'' (Num 5)) =
     Some \<lparr>success_callbacks = [Fun 9], error_callbacks = []\<rparr>"
    by (simp add: w_cached_queued_def queue_key_def int_to_string_5)
  have t1: "trace (w_cached 0) = []" and t2: "trace w_cached_queued = []"
    by (simp_all add: w_cached_def w_cached_queued_def w0_def)
  from entity_load_cache_hit [OF h1 h2 h3 h4 h5 h6 h7]
    entity_load_cache_hit [OF h1 h2 h3' h4 h5 h6 h7]
    h1 h2 h4 h5 h6 q1 q2 t1 t2
  show ?thesis by (simp add: int_to_string_5)
qed

text \<open>
  Claim C3 as it was stated fails when the options ask for a reset: with caching
  enabled and node 5 validly cached, \<^verbatim>\<open>entity_load('node', 5, {success: f, reset: true})\<close>
  calls no callback and calls the remote handler \<^verbatim>\<open>node_retrieve\<close>.
\<close>

theorem entity_load_reset_counterexample:
  "is_int (Num 5) \<and> truthy (entity_caching_enabled env0) \<and>
   local_storage (w_cached 0) (entity_local_storage_key ''node'' (entity_id_parse (Num 5))) =
     Some (Json (node5 0)) \<and>
   cache_entry_valid env0 (node5 0) \<and>
   trace (snd (entity_load env0 ''node'' (Num 5)
                 (Obj [(''success'', Fun 1), (''reset'', Bool True)]) (w_cached 0))) =
     [Retrieve ''node_retrieve'' (Num 5)
        \<lparr>cl_entity_type = ''node'', cl_entity_id = Num 5, cl_caching_enabled = Bool True,
         cl_options = Obj [(''success'', Fun 1), (''reset'', Bool True)],
         cl_primary_key = Str ''nid''\<rparr>]"
proof -
  have k: "services_queue (w_cached 0) (queue_key ''node'' ''retrieve'' (Num 5)) = None"
    by (simp add: w_cached_def w0_def)
  have l: "local_storage (w_cached 0) = [''node_5'' \<mapsto> Json (node5 0)]"
    by (simp add: w_cached_def)
  have t: "trace (w_cached 0) = []" by (simp add: w_cached_def w0_def)
  have c: "entity_caching_enabled env0 = Bool True"
    by (simp add: entity_caching_enabled_def env0_def)
  have f: "function_exists env0 ''node_retrieve''"
    by (simp add: function_exists_def env0_def)
  have v: "cache_entry_valid env0 (node5 0)"
    by (simp add: cache_entry_valid_def node5_def)
  have "trace (snd (entity_load env0 ''node'' (Num 5)
                 (Obj [(''success'', Fun 1), (''reset'', Bool True)]) (w_cached 0))) =
     [Retrieve ''node_retrieve'' (Num 5)
        \<lparr>cl_entity_type = ''node'', cl_entity_id = Num 5, cl_caching_enabled = Bool True,
         cl_options = Obj [(''success'', Fun 1), (''reset'', Bool True)],
         cl_primary_key = Str ''nid''\<rparr>]"
    by (simp add: entity_load_def entity_load_body_def entity_load_retrieve_def queue_defs
        storage_defs js_defs k l t c f key_node_5 entity_primary_key_table in_array_def
        entity_types_def Let_def)
  with v c l show ?thesis by (simp add: key_node_5)
qed

subsection \<open>Concurrent loads of one entity\<close>

text \<open>
  The success callbacks that wait on \<^verbatim>\<open>Drupal.services_queue[entity_type]['retrieve'][entity_id]\<close>
  (none when there is no entry). The key is queued, as \<^verbatim>\<open>entity_load\<close> asks at line 79,
  exactly when this list is not empty.
\<close>

definition queued_success :: "world \<Rightarrow> string \<Rightarrow> jsval \<Rightarrow> jsval list" where
  "queued_success w entity_type entity_id =
     (case services_queue w (queue_key entity_type ''retrieve'' entity_id) of
        None \<Rightarrow> []
      | Some q \<Rightarrow> success_callbacks q)"

text \<open>
  Concurrent callers: \<^verbatim>\<open>entity_load\<close> is called once for each of the options objects, one
  call after the other and before the server answers. Execution is single-threaded, so
  the calls cannot interleave.
\<close>

fun entity_loads :: "env \<Rightarrow> string \<Rightarrow> jsval \<Rightarrow> jsval list \<Rightarrow> world \<Rightarrow> world" where
  "entity_loads env entity_type ids [] w = w"
| "entity_loads env entity_type ids (options # optionss) w =
     entity_loads env entity_type ids optionss (snd (entity_load env entity_type ids options w))"

lemma call_each_functions:
  "call_each (map Fun cs) entity w =
     (Inr (), w\<lparr>trace := trace w @ map (\<lambda>c. Called c [entity]) cs\<rparr>)"
proof (induction cs arbitrary: w)
  case Nil
  show ?case by (simp add: js_defs)
next
  case (Cons c cs)
  show ?case by (simp add: js_defs Cons.IH)
qed

lemma has_success_callback:
  assumes "get_prop options ''success'' = Inr (Fun c)"
  obtains fs where "options = Obj fs"
  using assms by (cases options) (simp_all split: if_splits)

lemma entity_load_waits:
  assumes "is_int ids"
    and "\<not> truthy (entity_caching_enabled env)"
    and "queued_success w entity_type (entity_id_parse ids) \<noteq> []"
    and "get_prop options ''success'' = Inr (Fun c)"
  shows "trace (snd (entity_load env entity_type ids options w)) = trace w \<and>
         queued_success (snd (entity_load env entity_type ids options w)) entity_type
           (entity_id_parse ids) =
           queued_success w entity_type (entity_id_parse ids) @ [Fun c]"
proof -
  from assms(4) obtain fs where o: "options = Obj fs" by (rule has_success_callback)
  show ?thesis using assms unfolding o
    by (auto simp add: entity_load_def entity_load_body_def entity_load_set_aside_def
        queued_success_def queue_defs js_defs Let_def split: option.splits)
qed

lemma entity_loads_wait:
  assumes "is_int ids"
    and "\<not> truthy (entity_caching_enabled env)"
    and "queued_success w entity_type (entity_id_parse ids) \<noteq> []"
    and "list_all2 (\<lambda>options c. get_prop options ''success'' = Inr (Fun c)) optionss cs"
  shows "trace (entity_loads env entity_type ids optionss w) = trace w \<and>
         queued_success (entity_loads env entity_type ids optionss w) entity_type
           (entity_id_parse ids) =
           queued_success w entity_type (entity_id_parse ids) @ map Fun cs"
  using assms(4,3)
proof (induction optionss cs arbitrary: w rule: list_all2_induct)
  case Nil
  show ?case by simp
next
  case (Cons options optionss c cs)
  from entity_load_waits [OF assms(1,2) Cons.prems Cons.hyps(1)]
  have t: "trace (snd (entity_load env entity_type ids options w)) = trace w"
    and q: "queued_success (snd (entity_load env entity_type ids options w)) entity_type
           (entity_id_parse ids) =
           queued_success w entity_type (entity_id_parse ids) @ [Fun c]"
    by simp_all
  from q have "queued_success (snd (entity_load env entity_type ids options w)) entity_type
           (entity_id_parse ids) \<noteq> []" by simp
  from Cons.IH [OF this] t q show ?case by simp
qed

lemma entity_primary_key_known:
  assumes "entity_type \<in> set entity_types"
  shows "\<exists>key. \<forall>env w. entity_primary_key env entity_type w = (Inr (Str key), w)"
proof -
  from assms have "entity_type = ''comment'' \<or> entity_type = ''file'' \<or>
      entity_type = ''node'' \<or> entity_type = ''taxonomy_term'' \<or>
      entity_type = ''taxonomy_vocabulary'' \<or> entity_type = ''user''"
    by (simp only: in_entity_types)
  then show ?thesis
    by (elim disjE) (simp_all add: entity_primary_key_table)
qed

lemma entity_load_dispatches:
  assumes "is_int ids"
    and "\<not> truthy (entity_caching_enabled env)"
    and "entity_type \<in> set entity_types"
    and "function_exists env (entity_type @ ''_retrieve'')"
    and "fst (entity_primary_key env entity_type w) = Inr primary_key"
    and "queued_success w entity_type (entity_id_parse ids) = []"
    and "get_prop options ''success'' = Inr (Fun c)"
  shows "trace (snd (entity_load env entity_type ids options w)) =
           trace w @
           [Retrieve (entity_type @ ''_retrieve'') ids
              \<lparr>cl_entity_type = entity_type, cl_entity_id = entity_id_parse ids,
               cl_caching_enabled = entity_caching_enabled env, cl_options = options,
               cl_primary_key = primary_key\<rparr>] \<and>
         queued_success (snd (entity_load env entity_type ids options w)) entity_type
           (entity_id_parse ids) = [Fun c]"
proof -
  from entity_primary_key_known [OF assms(3)] obtain key
    where pk': "\<forall>env w. entity_primary_key env entity_type w = (Inr (Str key), w)" ..
  then have pk: "\<And>env w. entity_primary_key env entity_type w = (Inr (Str key), w)"
    by simp
  from assms(5) have k: "primary_key = Str key" by (simp add: pk)
  have a: "in_array entity_type entity_types" using assms(3) by (simp add: in_array_def)
  show ?thesis using assms(1,2,4,6,7) a
    by (auto simp add: entity_load_def entity_load_body_def entity_load_retrieve_def
        queued_success_def queue_defs js_defs Let_def pk k
        split: option.splits)
qed


lemma already_queued_success:
  "services_queue_already_queued entity_type ''retrieve'' entity_id ''success'' w =
     (Inr (Bool (queued_success w entity_type entity_id \<noteq> [])), w)"
  by (simp add: queue_defs queued_success_def split: option.splits)

lemma fan_out:
  assumes "queued_success w entity_type entity_id = map Fun cs"
  shows "(case services_queue w (queue_key entity_type ''retrieve'' entity_id) of
            None \<Rightarrow> (Inl TypeError, w)
          | Some q \<Rightarrow>
              js_bind (call_each (success_callbacks q) entity)
                (\<lambda>_. js_bind
                   (reset_success_callbacks (queue_key entity_type ''retrieve'' entity_id))
                   (\<lambda>_. js_return Undefined)) w) =
         (case services_queue w (queue_key entity_type ''retrieve'' entity_id) of
            None \<Rightarrow> (Inl TypeError, w)
          | Some q \<Rightarrow>
              (Inr Undefined,
               w\<lparr>trace := trace w @ map (\<lambda>c. Called c [entity]) cs,
                  services_queue := (services_queue w)
                    (queue_key entity_type ''retrieve'' entity_id \<mapsto>
                       q\<lparr>success_callbacks := []\<rparr>)\<rparr>))"
  using assms
  by (simp add: queued_success_def call_each_functions reset_success_callbacks_def js_defs
      split: option.splits)

lemma entity_load_success_uncached:
  assumes "\<not> truthy (cl_caching_enabled cl)"
    and "queued_success w (cl_entity_type cl) (cl_entity_id cl) = map Fun cs"
  shows "trace (snd (entity_load_success env cl data w)) =
           trace w @ map (\<lambda>c. Called c [data]) cs \<and>
         queued_success (snd (entity_load_success env cl data w)) (cl_entity_type cl)
           (cl_entity_id cl) = []"
proof (cases "services_queue w (queue_key (cl_entity_type cl) ''retrieve'' (cl_entity_id cl))")
  case None
  with assms show ?thesis
    by (simp add: entity_load_success_def entity_load_success_body_def js_defs
        queued_success_def Let_def)
next
  case (Some q)
  with assms(1) fan_out [OF assms(2), of data] show ?thesis
    by (simp add: entity_load_success_def entity_load_success_body_def js_defs
        queued_success_def Let_def)
qed

text \<open>
  Claim C1. Entity caching is disabled, the type is supported and has a retrieve
  handler, and the key is not queued. After N calls of \<^verbatim>\<open>entity_load\<close> for the same type
  and id, each with a success callback, one thing has left the library: the call of
  the retrieve handler made by the first of them; the N callbacks wait in the queue in
  the order of the calls. When the handler then calls the success function of its
  \<^verbatim>\<open>call_options\<close> with the data, the N callbacks are called with that data, in that
  order, and the list of waiting success callbacks is empty afterwards.
\<close>

theorem entity_load_deduplicates:
  assumes "is_int ids"
    and "\<not> truthy (entity_caching_enabled env)"
    and "entity_type \<in> set entity_types"
    and "function_exists env (entity_type @ ''_retrieve'')"
    and "fst (entity_primary_key env entity_type w) = Inr primary_key"
    and "fst (services_queue_already_queued entity_type ''retrieve'' (entity_id_parse ids)
           ''success'' w) = Inr (Bool False)"
    and "list_all2 (\<lambda>options c. get_prop options ''success'' = Inr (Fun c))
           (options # optionss) (c # cs)"
    and "cl = \<lparr>cl_entity_type = entity_type, cl_entity_id = entity_id_parse ids,
               cl_caching_enabled = entity_caching_enabled env, cl_options = options,
               cl_primary_key = primary_key\<rparr>"
    and "w' = entity_loads env entity_type ids (options # optionss) w"
  shows "trace w' = trace w @ [Retrieve (entity_type @ ''_retrieve'') ids cl] \<and>
         queued_success w' entity_type (entity_id_parse ids) = map Fun (c # cs) \<and>
         trace (snd (entity_load_success env' cl data w')) =
           trace w' @ map (\<lambda>c. Called c [data]) (c # cs) \<and>
         queued_success (snd (entity_load_success env' cl data w')) entity_type
           (entity_id_parse ids) = []"
proof -
  let ?w1 = "snd (entity_load env entity_type ids options w)"
  from assms(6) have nq: "queued_success w entity_type (entity_id_parse ids) = []"
    by (simp add: already_queued_success)
  from assms(7) have o: "get_prop options ''success'' = Inr (Fun c)"
    and os: "list_all2 (\<lambda>options c. get_prop options ''success'' = Inr (Fun c)) optionss cs"
    by simp_all
  from entity_load_dispatches [OF assms(1-5) nq o]
  have t1: "trace ?w1 = trace w @ [Retrieve (entity_type @ ''_retrieve'') ids cl]"
    and q1: "queued_success ?w1 entity_type (entity_id_parse ids) = [Fun c]"
    by (simp_all add: assms(8))
  from q1 have "queued_success ?w1 entity_type (entity_id_parse ids) \<noteq> []" by simp
  from entity_loads_wait [OF assms(1,2) this os] t1 q1
  have t: "trace w' = trace w @ [Retrieve (entity_type @ ''_retrieve'') ids cl]"
    and q: "queued_success w' entity_type (entity_id_parse ids) = map Fun (c # cs)"
    by (simp_all add: assms(9))
  have "\<not> truthy (cl_caching_enabled cl)" using assms(2) by (simp add: assms(8))
  from entity_load_success_uncached [OF this, of w' "c # cs" env' data] q
  have "trace (snd (entity_load_success env' cl data w')) =
           trace w' @ map (\<lambda>c. Called c [data]) (c # cs) \<and>
         queued_success (snd (entity_load_success env' cl data w')) entity_type
           (entity_id_parse ids) = []"
    by (simp add: assms(8))
  with t q show ?thesis by simp
qed

lemma entity_get_expiration_time_value:
  "entity_get_expiration_time env w =
     (Inr (projr (fst (entity_get_expiration_time env w0))),
      case cache_entity env of
        None \<Rightarrow> w\<lparr>console := console w @ [''_entity_get_expiration_time - TypeError'']\<rparr>
      | Some c \<Rightarrow> w)"
  by (simp add: entity_get_expiration_time_def entity_get_expiration_time_body_def js_defs
      split: option.splits)

text \<open>
  Claim C10. The success function of the \<^verbatim>\<open>call_options\<close> of a load made with entity
  caching enabled, called with an entity object: the entity gets the property
  \<^verbatim>\<open>expiration\<close>, set to what \<^verbatim>\<open>_entity_get_expiration_time\<close> returns at that moment. This
  entity, not the data as the server sent it, is what is written to local storage
  (unless the store is full) and what every waiting success callback is called with,
  in order.
\<close>

theorem entity_load_success_sets_expiration:
  assumes "truthy (cl_caching_enabled cl)"
    and "queued_success w (cl_entity_type cl) (cl_entity_id cl) = map Fun cs"
    and "fst (entity_get_expiration_time env w) = Inr expiration"
    and "entity = Obj (AList.update ''expiration'' expiration fs)"
  shows "get_prop entity ''expiration'' = Inr expiration \<and>
         trace (snd (entity_load_success env cl (Obj fs) w)) =
           trace w @ map (\<lambda>c. Called c [entity]) cs \<and>
         (quota_exceeded env \<or>
          local_storage (snd (entity_load_success env cl (Obj fs) w))
            (entity_local_storage_key (cl_entity_type cl) (cl_entity_id cl)) =
            Some (JSON_stringify entity))"
proof -
  from assms(3) have x: "projr (fst (entity_get_expiration_time env w0)) = expiration"
    by (simp add: entity_get_expiration_time_value [of env w])
  define w1 where "w1 = snd (js_bind (entity_set_expiration_time env (Obj fs))
            (\<lambda>entity.
               js_bind
                 (entity_local_storage_save env (cl_entity_type cl) (cl_entity_id cl) entity)
                 (\<lambda>_. js_return entity)) w)"
  have s: "js_bind (entity_set_expiration_time env (Obj fs))
            (\<lambda>entity.
               js_bind
                 (entity_local_storage_save env (cl_entity_type cl) (cl_entity_id cl) entity)
                 (\<lambda>_. js_return entity)) w = (Inr entity, w1)"
    unfolding w1_def
    by (simp add: entity_set_expiration_time_def entity_get_expiration_time_value [of env w] x
        assms(4) storage_defs js_defs split: option.splits)
  have w1: "trace w1 = trace w" "services_queue w1 = services_queue w"
    "quota_exceeded env \<or> local_storage w1
       (entity_local_storage_key (cl_entity_type cl) (cl_entity_id cl)) =
       Some (JSON_stringify entity)"
    unfolding w1_def
    by (simp_all add: entity_set_expiration_time_def
        entity_get_expiration_time_value [of env w] x
        assms(4) storage_defs js_defs split: option.splits)
  have q1: "queued_success w1 (cl_entity_type cl) (cl_entity_id cl) = map Fun cs"
    using assms(2) w1(2) by (simp add: queued_success_def)
  have e: "get_prop entity ''expiration'' = Inr expiration"
    by (simp add: assms(4) update_conv')
  show ?thesis
  proof (cases "services_queue w1
      (queue_key (cl_entity_type cl) ''retrieve'' (cl_entity_id cl))")
    case None
    with assms(1) s w1 q1 e show ?thesis
      by (auto simp add: entity_load_success_def entity_load_success_body_def
          js_bind_def try_catch_def js_return_def queued_success_def Let_def)
  next
    case (Some q)
    with assms(1) s w1 e fan_out [OF q1, of entity] show ?thesis
      by (auto simp add: entity_load_success_def entity_load_success_body_def
          js_bind_def try_catch_def js_return_def Let_def)
  qed
qed


text \<open>
  The example environment with entity caching disabled; three callers, the second with
  an error callback too; the \<^verbatim>\<open>call_options\<close> the first of them makes for node 5.
\<close>

definition env_uncached :: env where
  "env_uncached = env0\<lparr>cache_entity := Some \<lparr>cache_enabled = False, cache_expiration = 60\<rparr>\<rparr>"

definition three_callers :: "jsval list" where
  "three_callers =
     [Obj [(''success'', Fun 1)], Obj [(''success'', Fun 2), (''error'', Fun 7)],
      Obj [(''success'', Fun 3)]]"

definition retrieve_node5 :: retrieve_call where
  "retrieve_node5 =
     \<lparr>cl_entity_type = ''node'', cl_entity_id = Num 5, cl_caching_enabled = Bool False,
      cl_options = Obj [(''success'', Fun 1)], cl_primary_key = Str ''nid''\<rparr>"

text \<open>The theorem for three loads of node 5 from the empty world.\<close>

theorem entity_load_deduplicates_witness:
  "is_int (Num 5) \<and> \<not> truthy (entity_caching_enabled env_uncached) \<and>
   ''node'' \<in> set entity_types \<and> function_exists env_uncached ''node_retrieve'' \<and>
   fst (services_queue_already_queued ''node'' ''retrieve'' (Num 5) ''success'' w0) =
     Inr (Bool False) \<and>
   trace (entity_loads env_uncached ''node'' (Num 5) three_callers w0) =
     [Retrieve ''node_retrieve'' (Num 5) retrieve_node5] \<and>
   queued_success (entity_loads env_uncached ''node'' (Num 5) three_callers w0) ''node'' (Num 5) =
     [Fun 1, Fun 2, Fun 3] \<and>
   trace (snd (entity_load_success env_uncached retrieve_node5 (node5 0)
                 (entity_loads env_uncached ''node'' (Num 5) three_callers w0))) =
     [Retrieve ''node_retrieve'' (Num 5) retrieve_node5,
      Called 1 [node5 0], Called 2 [node5 0], Called 3 [node5 0]] \<and>
   queued_success (snd (entity_load_success env_uncached retrieve_node5 (node5 0)
                 (entity_loads env_uncached ''node'' (Num 5) three_callers w0))) ''node'' (Num 5) =
     []"
proof -
  have h1: "is_int (Num 5)" by simp
  have h2: "\<not> truthy (entity_caching_enabled env_uncached)"
    by (simp add: entity_caching_enabled_def env_uncached_def)
  have h3: "''node'' \<in> set entity_types" by (simp add: entity_types_def)
  have h4: "function_exists env_uncached (''node'' @ ''_retrieve'')"
    by (simp add: function_exists_def env_uncached_def env0_def)
  have h5: "fst (entity_primary_key env_uncached ''node'' w0) = Inr (Str ''nid'')"
    by (simp add: entity_primary_key_table)
  have h6: "fst (services_queue_already_queued ''node'' ''retrieve'' (entity_id_parse (Num 5))
           ''success'' w0) = Inr (Bool False)"
    by (simp add: queue_defs w0_def)
  have h7: "list_all2 (\<lambda>options c. get_prop options ''success'' = Inr (Fun c))
      (Obj [(''success'', Fun 1)] #
       [Obj [(''success'', Fun 2), (''error'', Fun 7)], Obj [(''success'', Fun 3)]])
      (1 # [2, 3])"
    by simp
  have h8: "retrieve_node5 =
     \<lparr>cl_entity_type = ''node'', cl_entity_id = entity_id_parse (Num 5),
      cl_caching_enabled = entity_caching_enabled env_uncached,
      cl_options = Obj [(''success'', Fun 1)], cl_primary_key = Str ''nid''\<rparr>"
    by (simp add: retrieve_node5_def entity_caching_enabled_def env_uncached_def)
  have h9: "entity_loads env_uncached ''node'' (Num 5) three_callers w0 =
      entity_loads env_uncached ''node'' (Num 5)
        (Obj [(''success'', Fun 1)] #
         [Obj [(''success'', Fun 2), (''error'', Fun 7)], Obj [(''success'', Fun 3)]]) w0"
    by (simp only: three_callers_def)
  have t0: "trace w0 = []" by (simp add: w0_def)
  from entity_load_deduplicates [OF h1 h2 h3 h4 h5 h6 h7 h8 h9, of env_uncached "node5 0"]
    h1 h2 h3 h4 h6 t0
  show ?thesis by simp
qed

text \<open>The \<^verbatim>\<open>call_options\<close> of a load of node 5 made with caching enabled.\<close>

definition retrieve_node5_cached :: retrieve_call where
  "retrieve_node5_cached =
     \<lparr>cl_entity_type = ''node'', cl_entity_id = Num 5, cl_caching_enabled = Bool True,
      cl_options = Obj [(''success'', Fun 9)], cl_primary_key = Str ''nid''\<rparr>"

text \<open>
  The theorem in the example environment, at time 1000 with a life time of 60 seconds,
  with one callback waiting for node 5: the callback and the cache get the node with
  \<^verbatim>\<open>expiration: 1060\<close>.
\<close>

theorem entity_load_success_sets_expiration_witness:
  "truthy (cl_caching_enabled retrieve_node5_cached) \<and>
   queued_success w_cached_queued ''node'' (Num 5) = [Fun 9] \<and>
   fst (entity_get_expiration_time env0 w_cached_queued) = Inr (Num 1060) \<and>
   trace (snd (entity_load_success env0 retrieve_node5_cached
                 (Obj [(''nid'', Num 5), (''title'', Str ''y'')]) w_cached_queued)) =
     [Called 9 [Obj [(''nid'', Num 5), (''title'', Str ''y''), (''expiration'', Num 1060)]]] \<and>
   local_storage (snd (entity_load_success env0 retrieve_node5_cached
                 (Obj [(''nid'', Num 5), (''title'', Str ''y'')]) w_cached_queued)) ''node_5'' =
     Some (Json (Obj [(''nid'', Num 5), (''title'', Str ''y''), (''expiration'', Num 1060)]))"
proof -
  have h1: "truthy (cl_caching_enabled retrieve_node5_cached)"
    by (simp add: retrieve_node5_cached_def)
  have h2: "queued_success w_cached_queued (cl_entity_type retrieve_node5_cached)
      (cl_entity_id retrieve_node5_cached) = map Fun [9]"
    by (simp add: queued_success_def retrieve_node5_cached_def w_cached_queued_def
        queue_key_def int_to_string_5)
  have h3: "fst (entity_get_expiration_time env0 w_cached_queued) = Inr (Num 1060)"
    by (simp add: entity_get_expiration_time_def entity_get_expiration_time_body_def js_defs
        env0_def)
  have h4: "Obj [(''nid'', Num 5), (''title'', Str ''y''), (''expiration'', Num 1060)] =
      Obj (AList.update ''expiration'' (Num 1060) [(''nid'', Num 5), (''title'', Str ''y'')])"
    by simp
  have q: "\<not> quota_exceeded env0" by (simp add: env0_def)
  have t: "trace w_cached_queued = []"
    by (simp add: w_cached_queued_def w_cached_def w0_def)
  have j: "JSON_stringify
      (Obj [(''nid'', Num 5), (''title'', Str ''y''), (''expiration'', Num 1060)]) =
      Json (Obj [(''nid'', Num 5), (''title'', Str ''y''), (''expiration'', Num 1060)])"
    by (simp add: JSON_stringify_def unserializable_def)
  from entity_load_success_sets_expiration [OF h1 h2 h3 h4] h1 h2 h3 q t j
  show ?thesis by (simp add: retrieve_node5_cached_def key_node_5)
qed

subsection \<open>The index of a query\<close>

text \<open>
  From the words of the spec (section 4.3): the sequence obtained by replaying the ids,
  in order, through the load of the entity cache store; each read works on the world
  the read before it left. It is compared below with what the loop of
  \<^verbatim>\<open>_entity_index_local_storage_load\<close> builds.
\<close>

fun replay :: "env \<Rightarrow> string \<Rightarrow> jsval list \<Rightarrow> jsval \<Rightarrow> world \<Rightarrow> jsval list \<times> world" where
  "replay env entity_type [] options w = ([], w)"
| "replay env entity_type (entity_id # entity_ids) options w =
     (case entity_local_storage_load env entity_type entity_id options w of
        (r, w') \<Rightarrow>
          (case replay env entity_type entity_ids options w' of
             (rs, w'') \<Rightarrow> ((case r of Inl e \<Rightarrow> Undefined | Inr entity \<Rightarrow> entity) # rs, w'')))"

lemma try_catch_returns:
  "try_catch name dflt body w =
     (Inr (case fst (body w) of Inl e \<Rightarrow> dflt | Inr v \<Rightarrow> v), snd (try_catch name dflt body w))"
  by (simp add: try_catch_def split: prod.splits sum.splits)

lemma load_each_replay:
  "load_each env entity_type entity_ids options w =
     (Inr (fst (replay env entity_type entity_ids options w)),
      snd (replay env entity_type entity_ids options w))"
proof (induction entity_ids arbitrary: w)
  case Nil
  show ?case by (simp add: js_defs)
next
  case (Cons entity_id entity_ids)
  obtain v w' where l: "entity_local_storage_load env entity_type entity_id options w = (Inr v, w')"
    unfolding entity_local_storage_load_def
    by (metis try_catch_returns)
  show ?case
    by (simp add: l js_bind_def js_return_def Cons.IH split: prod.splits)
qed

lemma index_reset_step:
  "(if truthy options then
      js_bind (js_lift (get_prop options ''reset''))
        (\<lambda>reset. if truthy reset then entity_index_local_storage_delete path
                  else js_return Undefined)
    else js_return Undefined) w =
   (Inr Undefined,
    if reset_requested options
    then w\<lparr>local_storage := (local_storage w)(path := None)\<rparr>
    else w)"
  by (cases options)
    (simp_all add: reset_requested_def entity_index_local_storage_delete_def
      entity_index_local_storage_key_def js_defs)

lemma index_load_hit:
  assumes "local_storage w path =
      Some (Json (Obj [(''entity_type'', Str t), (''expiration'', Num x),
                       (''entity_ids'', Arr entity_ids)]))"
    and "\<not> reset_requested options"
    and "x = 0 \<or> time_now env \<le> x"
  shows "entity_index_local_storage_load env entity_type path options w =
     (Inr (Arr (fst (replay env entity_type entity_ids options w))),
      snd (replay env entity_type entity_ids options w))"
  using assms
  by (auto simp add: entity_index_local_storage_load_def
      entity_index_local_storage_load_body_def
      js_bind_def [of "if truthy options then _ else _"] index_reset_step
      entity_index_local_storage_key_def load_each_replay greater_than_def
      js_defs Let_def)

lemma index_entity_ids_known:
  assumes "\<And>w. entity_primary_key env entity_type w = (Inr (Str key), w)"
    and "list_all2 (\<lambda>entity entity_id. get_prop entity key = Inr entity_id) entities entity_ids"
  shows "index_entity_ids env entity_type entities w = (Inr entity_ids, w)"
  using assms(2)
  by (induction entities entity_ids rule: list_all2_induct) (simp_all add: assms(1) js_defs)

lemma index_save_result:
  assumes "\<And>w. entity_primary_key env entity_type w = (Inr (Str key), w)"
    and "list_all2 (\<lambda>entity entity_id. get_prop entity key = Inr entity_id) entities entity_ids"
    and "cache_entity env = Some c" and "cache_enabled c" and "\<not> quota_exceeded env"
  shows "entity_index_local_storage_save env entity_type path (Arr entities) w =
     (Inr Undefined,
      w\<lparr>local_storage := (local_storage w)(path \<mapsto>
         JSON_stringify
           (Obj [(''entity_type'', Str entity_type),
                 (''expiration'',
                  Num (if cache_expiration c = 0 then 0 else time_now env + cache_expiration c)),
                 (''entity_ids'', Arr entity_ids)]))\<rparr>)"
  using assms(3-)
  by (simp add: entity_index_local_storage_save_def entity_index_local_storage_save_body_def
      entity_get_expiration_time_def entity_get_expiration_time_body_def
      index_entity_ids_known [OF assms(1,2)] entity_index_local_storage_key_def js_defs)

lemma entity_local_storage_load_absent:
  assumes "local_storage w (entity_local_storage_key entity_type entity_id) = None"
    and "\<not> reset_requested options"
  shows "entity_local_storage_load env entity_type entity_id options w = (Inr Null, w)"
  using assms
  by (simp add: entity_local_storage_load_def entity_local_storage_load_body_def
      js_bind_def [of "if truthy options then _ else _"] reset_step js_defs Let_def)

lemma keys_10_11_12:
  "entity_local_storage_key entity_type (Num 10) = entity_type @ ''_10''"
  "entity_local_storage_key entity_type (Num 11) = entity_type @ ''_11''"
  "entity_local_storage_key entity_type (Num 12) = entity_type @ ''_12''"
  by (simp_all add: entity_local_storage_key_def int_to_string_def digits.simps digit_char_def)

text \<open>
  Claim C8. With entity caching enabled and room in the store, an index is saved for
  \<open>path\<close> from three entities whose primary keys are 10, 11 and 12, and loaded before it
  expires, with no reset asked for. The load returns the array obtained by replaying
  the ids 10, 11, 12 in order through \<^verbatim>\<open>_entity_local_storage_load\<close>. If the entry of entity
  11 is deleted between the save and the load, while valid copies of 10 and 12 are
  cached (the path is not one of their keys, and the page context lets cached copies
  through), the array is the copy of 10, null, the copy of 12; the load changes
  nothing, and the index entry still lists the three ids.
\<close>

theorem entity_index_save_then_load:
  assumes "entity_type \<in> set entity_types"
    and "fst (entity_primary_key env_s entity_type w) = Inr (Str key)"
    and "get_prop e1 key = Inr (Num 10)"
    and "get_prop e2 key = Inr (Num 11)"
    and "get_prop e3 key = Inr (Num 12)"
    and "cache_entity env_s = Some c" and "cache_enabled c" and "\<not> quota_exceeded env_s"
    and "x = (if cache_expiration c = 0 then 0 else time_now env_s + cache_expiration c)"
    and "x = 0 \<or> time_now env_l \<le> x"
    and "\<not> reset_requested options"
    and "w1 = snd (entity_index_local_storage_save env_s entity_type path (Arr [e1, e2, e3]) w)"
    and "w2 = snd (entity_local_storage_delete entity_type (Num 11) w1)"
  shows "entity_index_local_storage_load env_l entity_type path options w1 =
           (Inr (Arr (fst (replay env_l entity_type [Num 10, Num 11, Num 12] options w1))),
            snd (replay env_l entity_type [Num 10, Num 11, Num 12] options w1)) \<and>
         (path \<notin> {entity_local_storage_key entity_type (Num 10),
                   entity_local_storage_key entity_type (Num 11),
                   entity_local_storage_key entity_type (Num 12)} \<and>
          local_storage w (entity_local_storage_key entity_type (Num 10)) = Some (Json c10) \<and>
          local_storage w (entity_local_storage_key entity_type (Num 12)) = Some (Json c12) \<and>
          cache_entry_valid env_l c10 \<and> cache_entry_valid env_l c12 \<and>
          page_keeps_cache env_l \<longrightarrow>
            entity_index_local_storage_load env_l entity_type path options w2 =
              (Inr (Arr [c10, Null, c12]), w2) \<and>
            local_storage w2 path =
              Some (Json (Obj [(''entity_type'', Str entity_type), (''expiration'', Num x),
                               (''entity_ids'', Arr [Num 10, Num 11, Num 12])])))"
proof -
  let ?index = "Obj [(''entity_type'', Str entity_type), (''expiration'', Num x),
                     (''entity_ids'', Arr [Num 10, Num 11, Num 12])]"
  from entity_primary_key_known [OF assms(1)] obtain key'
    where pk': "\<forall>env w. entity_primary_key env entity_type w = (Inr (Str key'), w)" ..
  with assms(2) have "key' = key" by simp
  with pk' have pk: "\<And>w. entity_primary_key env_s entity_type w = (Inr (Str key), w)"
    by simp
  have ids: "list_all2 (\<lambda>entity entity_id. get_prop entity key = Inr entity_id)
      [e1, e2, e3] [Num 10, Num 11, Num 12]"
    using assms(3-5) by simp
  have j: "\<And>n. JSON_stringify
        (Obj [(''entity_type'', Str entity_type), (''expiration'', Num n),
              (''entity_ids'', Arr [Num 10, Num 11, Num 12])]) =
      Json (Obj [(''entity_type'', Str entity_type), (''expiration'', Num n),
                 (''entity_ids'', Arr [Num 10, Num 11, Num 12])])"
    by (simp add: JSON_stringify_def unserializable_def)
  from index_save_result [OF pk ids assms(6-8), of path w]
  have w1: "w1 = w\<lparr>local_storage := (local_storage w)(path \<mapsto> Json ?index)\<rparr>"
    by (simp add: assms(12) assms(9) j)
  then have s1: "local_storage w1 path = Some (Json ?index)" by simp
  have part1: "entity_index_local_storage_load env_l entity_type path options w1 =
           (Inr (Arr (fst (replay env_l entity_type [Num 10, Num 11, Num 12] options w1))),
            snd (replay env_l entity_type [Num 10, Num 11, Num 12] options w1))"
    by (rule index_load_hit [OF s1 assms(11) assms(10)])
  have w2: "w2 = w1\<lparr>local_storage :=
      (local_storage w1)(entity_local_storage_key entity_type (Num 11) := None)\<rparr>"
    by (simp add: assms(13) storage_defs js_defs)
  have part2: "entity_index_local_storage_load env_l entity_type path options w2 =
              (Inr (Arr [c10, Null, c12]), w2) \<and>
            local_storage w2 path = Some (Json ?index)"
    if p: "path \<notin> {entity_local_storage_key entity_type (Num 10),
                   entity_local_storage_key entity_type (Num 11),
                   entity_local_storage_key entity_type (Num 12)}"
      and c10: "local_storage w (entity_local_storage_key entity_type (Num 10)) = Some (Json c10)"
      and c12: "local_storage w (entity_local_storage_key entity_type (Num 12)) = Some (Json c12)"
      and v10: "cache_entry_valid env_l c10" and v12: "cache_entry_valid env_l c12"
      and pg: "page_keeps_cache env_l"
  proof -
    have s2: "local_storage w2 path = Some (Json ?index)"
      using p by (simp add: w2 w1)
    have a10: "local_storage w2 (entity_local_storage_key entity_type (Num 10)) = Some (Json c10)"
      using p c10 by (auto simp add: w2 w1 keys_10_11_12)
    have a11: "local_storage w2 (entity_local_storage_key entity_type (Num 11)) = None"
      by (simp add: w2)
    have a12: "local_storage w2 (entity_local_storage_key entity_type (Num 12)) = Some (Json c12)"
      using p c12 by (auto simp add: w2 w1 keys_10_11_12)
    have r: "replay env_l entity_type [Num 10, Num 11, Num 12] options w2 =
        ([c10, Null, c12], w2)"
      by (simp add: entity_local_storage_load_hit [OF a10 v10 assms(11) pg]
          entity_local_storage_load_absent [OF a11 assms(11)]
          entity_local_storage_load_hit [OF a12 v12 assms(11) pg])
    from index_load_hit [OF s2 assms(11) assms(10), of entity_type] r s2
    show ?thesis by simp
  qed
  from part1 part2 show ?thesis by blast
qed


text \<open>
  Nodes as a query returns them and as they are cached; a world that has cached the
  nodes 10, 11 and 12, that world after their index is saved at time 1000, and then
  after the cached node 11 is deleted.
\<close>

definition node_entity :: "int \<Rightarrow> jsval" where
  "node_entity n = Obj [(''nid'', Num n), (''title'', Str ''t'')]"

definition node_copy :: "int \<Rightarrow> jsval" where
  "node_copy n = Obj [(''nid'', Num n), (''title'', Str ''t''), (''expiration'', Num 0)]"

definition w_three :: world where
  "w_three =
     w0\<lparr>local_storage :=
          [''node_10'' \<mapsto> Json (node_copy 10), ''node_11'' \<mapsto> Json (node_copy 11),
           ''node_12'' \<mapsto> Json (node_copy 12)]\<rparr>"

definition w_indexed :: world where
  "w_indexed =
     snd (entity_index_local_storage_save env0 ''node'' ''node?page=0''
            (Arr [node_entity 10, node_entity 11, node_entity 12]) w_three)"

definition w_without_11 :: world where
  "w_without_11 = snd (entity_local_storage_delete ''node'' (Num 11) w_indexed)"

text \<open>The theorem for these worlds, the index loaded at time 1030.\<close>

theorem entity_index_save_then_load_witness:
  "entity_index_local_storage_load (env0\<lparr>time_now := 1030\<rparr>) ''node'' ''node?page=0'' (Obj [])
       w_indexed =
     (Inr (Arr (fst (replay (env0\<lparr>time_now := 1030\<rparr>) ''node'' [Num 10, Num 11, Num 12]
                       (Obj []) w_indexed))),
      snd (replay (env0\<lparr>time_now := 1030\<rparr>) ''node'' [Num 10, Num 11, Num 12] (Obj [])
             w_indexed)) \<and>
   local_storage w_three ''node_10'' = Some (Json (node_copy 10)) \<and>
   local_storage w_three ''node_12'' = Some (Json (node_copy 12)) \<and>
   entity_index_local_storage_load (env0\<lparr>time_now := 1030\<rparr>) ''node'' ''node?page=0'' (Obj [])
       w_without_11 =
     (Inr (Arr [node_copy 10, Null, node_copy 12]), w_without_11) \<and>
   local_storage w_without_11 ''node?page=0'' =
     Some (Json (Obj [(''entity_type'', Str ''node''), (''expiration'', Num 1060),
                      (''entity_ids'', Arr [Num 10, Num 11, Num 12])]))"
proof -
  let ?env = "env0\<lparr>time_now := 1030\<rparr>"
  let ?c = "\<lparr>cache_enabled = True, cache_expiration = 60\<rparr>"
  have h1: "''node'' \<in> set entity_types" by (simp add: entity_types_def)
  have h2: "fst (entity_primary_key env0 ''node'' w_three) = Inr (Str ''nid'')"
    by (simp add: entity_primary_key_table)
  have h3: "get_prop (node_entity 10) ''nid'' = Inr (Num 10)"
    and h4: "get_prop (node_entity 11) ''nid'' = Inr (Num 11)"
    and h5: "get_prop (node_entity 12) ''nid'' = Inr (Num 12)"
    by (simp_all add: node_entity_def)
  have h6: "cache_entity env0 = Some ?c" and h7: "cache_enabled ?c"
    and h8: "\<not> quota_exceeded env0"
    by (simp_all add: env0_def)
  have h9: "(1060::int) = (if cache_expiration ?c = 0 then 0
      else time_now env0 + cache_expiration ?c)"
    by (simp add: env0_def)
  have h10: "(1060::int) = 0 \<or> time_now ?env \<le> 1060" by simp
  have h11: "\<not> reset_requested (Obj [])" by (simp add: reset_requested_def)
  have p: "''node?page=0'' \<notin> {entity_local_storage_key ''node'' (Num 10),
      entity_local_storage_key ''node'' (Num 11), entity_local_storage_key ''node'' (Num 12)}"
    by (simp add: keys_10_11_12)
  have c10: "local_storage w_three (entity_local_storage_key ''node'' (Num 10)) =
      Some (Json (node_copy 10))"
    and c12: "local_storage w_three (entity_local_storage_key ''node'' (Num 12)) =
      Some (Json (node_copy 12))"
    by (simp_all add: keys_10_11_12 w_three_def)
  have v: "cache_entry_valid ?env (node_copy 10)" "cache_entry_valid ?env (node_copy 12)"
    by (simp_all add: cache_entry_valid_def node_copy_def)
  have pg: "page_keeps_cache ?env" by (simp add: page_keeps_cache_def env0_def)
  from entity_index_save_then_load [OF h1 h2 h3 h4 h5 h6 h7 h8 h9 h10 h11
      w_indexed_def w_without_11_def, of "node_copy 10" "node_copy 12"]
    p c10 c12 v pg
  show ?thesis by (simp add: keys_10_11_12)
qed

subsection \<open>Faults stay inside the operations\<close>

lemma try_catch_never_throws: "fst (try_catch name dflt body w) \<noteq> Inl e"
  by (simp add: try_catch_def split: prod.splits sum.splits)

lemma try_catch_caught:
  "fst (body w) = Inl e \<Longrightarrow>
   try_catch name dflt body w =
     (Inr dflt, (snd (body w))\<lparr>console := console (snd (body w)) @ [name @ '' - '' @ exn_name e]\<rparr>)"
  by (cases "body w") (auto simp add: try_catch_def)

text \<open>
  Claim C5. \<^verbatim>\<open>entity_load\<close>, \<^verbatim>\<open>entity_save\<close>, \<^verbatim>\<open>entity_delete\<close>, \<^verbatim>\<open>entity_primary_key\<close> and the
  load, save and delete of the entity cache never throw, whatever their arguments and
  the world. Whenever the block of one of them throws an exception, the function
  returns undefined, and the world is as the block left it when it threw, with one more
  line on the console: the name of the function and the exception.
\<close>

theorem operations_catch_their_faults:
  "(\<forall>e. fst (entity_load env entity_type ids options w) \<noteq> Inl e) \<and>
   (\<forall>e. fst (entity_save env entity_type bundle entity options w) \<noteq> Inl e) \<and>
   (\<forall>e. fst (entity_delete env entity_type ids options w) \<noteq> Inl e) \<and>
   (\<forall>e. fst (entity_primary_key env entity_type w) \<noteq> Inl e) \<and>
   (\<forall>e. fst (entity_local_storage_load env entity_type entity_id options w) \<noteq> Inl e) \<and>
   (\<forall>e. fst (entity_local_storage_save env entity_type entity_id entity w) \<noteq> Inl e) \<and>
   (\<forall>e. fst (entity_local_storage_delete entity_type entity_id w) \<noteq> Inl e) \<and>
   (\<forall>e. fst (entity_load_body env entity_type ids options w) = Inl e \<longrightarrow>
      entity_load env entity_type ids options w =
        (Inr Undefined,
         (snd (entity_load_body env entity_type ids options w))
           \<lparr>console := console (snd (entity_load_body env entity_type ids options w)) @
              [''entity_load - '' @ exn_name e]\<rparr>)) \<and>
   (\<forall>e. fst (entity_save_body env entity_type bundle entity options w) = Inl e \<longrightarrow>
      entity_save env entity_type bundle entity options w =
        (Inr Undefined,
         (snd (entity_save_body env entity_type bundle entity options w))
           \<lparr>console := console (snd (entity_save_body env entity_type bundle entity options w)) @
              [''entity_save - '' @ exn_name e]\<rparr>)) \<and>
   (\<forall>e. fst (entity_delete_body env entity_type ids options w) = Inl e \<longrightarrow>
      entity_delete env entity_type ids options w =
        (Inr Undefined,
         (snd (entity_delete_body env entity_type ids options w))
           \<lparr>console := console (snd (entity_delete_body env entity_type ids options w)) @
              [''entity_delete - '' @ exn_name e]\<rparr>)) \<and>
   (\<forall>e. fst (entity_primary_key_body env entity_type w) = Inl e \<longrightarrow>
      entity_primary_key env entity_type w =
        (Inr Undefined,
         (snd (entity_primary_key_body env entity_type w))
           \<lparr>console := console (snd (entity_primary_key_body env entity_type w)) @
              [''entity_primary_key - '' @ exn_name e]\<rparr>)) \<and>
   (\<forall>e. fst (entity_local_storage_load_body env entity_type entity_id options w) = Inl e \<longrightarrow>
      entity_local_storage_load env entity_type entity_id options w =
        (Inr Undefined,
         (snd (entity_local_storage_load_body env entity_type entity_id options w))
           \<lparr>console := console (snd (entity_local_storage_load_body env entity_type entity_id options w)) @
              [''_entity_local_storage_load - '' @ exn_name e]\<rparr>)) \<and>
   (\<forall>e. fst (entity_local_storage_save_body env entity_type entity_id entity w) = Inl e \<longrightarrow>
      entity_local_storage_save env entity_type entity_id entity w =
        (Inr Undefined,
         (snd (entity_local_storage_save_body env entity_type entity_id entity w))
           \<lparr>console := console (snd (entity_local_storage_save_body env entity_type entity_id entity w)) @
              [''_entity_local_storage_save - '' @ exn_name e]\<rparr>)) \<and>
   (\<forall>e. fst (entity_local_storage_delete_body entity_type entity_id w) = Inl e \<longrightarrow>
      entity_local_storage_delete entity_type entity_id w =
        (Inr Undefined,
         (snd (entity_local_storage_delete_body entity_type entity_id w))
           \<lparr>console := console (snd (entity_local_storage_delete_body entity_type entity_id w)) @
              [''_entity_local_storage_delete - '' @ exn_name e]\<rparr>))"
  unfolding entity_load_def entity_save_def entity_delete_def entity_primary_key_def entity_local_storage_load_def entity_local_storage_save_def entity_local_storage_delete_def
  by (simp add: try_catch_never_throws try_catch_caught)


text \<open>
  A store that is full, and a world whose entry for node 5 is not JSON text.
\<close>

definition env_faulty :: env where
  "env_faulty = env0\<lparr>quota_exceeded := True\<rparr>"

definition w_garbage :: world where
  "w_garbage = w0\<lparr>local_storage := [''node_5'' \<mapsto> Raw ''{nid:'']\<rparr>"

text \<open>
  The theorem where blocks do throw: \<^verbatim>\<open>entity_load\<close> without options (a TypeError, after
  the entity was queued), \<^verbatim>\<open>entity_save\<close> of null, the cache load of the malformed entry
  (a SyntaxError of \<^verbatim>\<open>JSON.parse\<close>) and the cache save into the full store.
\<close>

theorem operations_catch_their_faults_witness:
  "fst (entity_load_body env_faulty ''node'' (Num 5) Undefined w_garbage) = Inl TypeError \<and>
   entity_load env_faulty ''node'' (Num 5) Undefined w_garbage =
     (Inr Undefined,
      w_garbage\<lparr>services_queue :=
          [(''node'', ''retrieve'', ''5'') \<mapsto> \<lparr>success_callbacks = [], error_callbacks = []\<rparr>],
        console := [''entity_load - TypeError'']\<rparr>) \<and>
   fst (entity_save_body env_faulty ''node'' Undefined Null Undefined w_garbage) = Inl TypeError \<and>
   entity_save env_faulty ''node'' Undefined Null Undefined w_garbage =
     (Inr Undefined, w_garbage\<lparr>console := [''entity_save - TypeError'']\<rparr>) \<and>
   fst (entity_local_storage_load_body env_faulty ''node'' (Num 5) Undefined w_garbage) =
     Inl SyntaxError \<and>
   entity_local_storage_load env_faulty ''node'' (Num 5) Undefined w_garbage =
     (Inr Undefined, w_garbage\<lparr>console := [''_entity_local_storage_load - SyntaxError'']\<rparr>) \<and>
   fst (entity_local_storage_save_body env_faulty ''node'' (Num 5) Null w_garbage) =
     Inl QuotaExceededError \<and>
   entity_local_storage_save env_faulty ''node'' (Num 5) Null w_garbage =
     (Inr Undefined,
      w_garbage\<lparr>console := [''_entity_local_storage_save - QuotaExceededError'']\<rparr>)"
proof -
  have c: "console w_garbage = []" and q: "services_queue w_garbage = Map.empty"
    and l: "local_storage w_garbage ''node_5'' = Some (Raw ''{nid:'')"
    by (simp_all add: w_garbage_def w0_def)
  have b1: "entity_load_body env_faulty ''node'' (Num 5) Undefined w_garbage =
      (Inl TypeError,
       w_garbage\<lparr>services_queue :=
          [(''node'', ''retrieve'', ''5'') \<mapsto> \<lparr>success_callbacks = [], error_callbacks = []\<rparr>]\<rparr>)"
    by (simp add: entity_load_body_def queue_defs queue_key_def int_to_string_5 js_defs q Let_def)
  have b2: "entity_save_body env_faulty ''node'' Undefined Null Undefined w_garbage =
      (Inl TypeError, w_garbage)"
    by (simp add: entity_save_body_def entity_save_function_name_def js_defs)
  have b3: "entity_local_storage_load_body env_faulty ''node'' (Num 5) Undefined w_garbage =
      (Inl SyntaxError, w_garbage)"
    by (simp add: entity_local_storage_load_body_def key_node_5 l js_defs)
  have b4: "entity_local_storage_save_body env_faulty ''node'' (Num 5) Null w_garbage =
      (Inl QuotaExceededError, w_garbage)"
    by (simp add: entity_local_storage_save_body_def js_defs env_faulty_def)
  from operations_catch_their_faults [where env = env_faulty and entity_type = "''node''"
      and ids = "Num 5" and entity_id = "Num 5" and options = Undefined and entity = Null
      and w = w_garbage]
    b1 b2 b3 b4 c
  show ?thesis by simp
qed

end
